theory Spec2Isabelle
  imports Main "HOL-Library.Word"
begin

unbundle bit_operations_syntax

section \<open>Bytes, errors and the TCP connection\<close>

text \<open>
  The repository has two server entry points, \<^verbatim>\<open>src/cmd/proxy/main.go\<close> (suffix
  \<open>_proxy\<close> below) and \<^verbatim>\<open>src/unnamed/part_000\<close> (suffix \<open>_svc\<close>), and one client
  driver, \<^verbatim>\<open>src/unnamed/part_001\<close>. Go's \<^verbatim>\<open>[]byte\<close> is a list of 8-bit words,
  \<^verbatim>\<open>uint32\<close> a 32-bit word, \<^verbatim>\<open>int64\<close> a 64-bit word, and a Go \<^verbatim>\<open>string\<close> a
  \<open>string\<close>.
\<close>

type_synonym byte = "8 word"
type_synonym uint32 = "32 word"
type_synonym int64 = "64 word"

text \<open>
  The \<^verbatim>\<open>error\<close> values that occur: \<^verbatim>\<open>io.EOF\<close> and \<^verbatim>\<open>io.ErrUnexpectedEOF\<close> of
  \<^verbatim>\<open>io.ReadFull\<close>, an error of the socket, an error of the msgpack library, an error
  of \<^verbatim>\<open>database/sql\<close>, and an error built by \<^verbatim>\<open>fmt.Errorf\<close>.
\<close>

datatype go_error =
    EOF
  | ErrUnexpectedEOF
  | NetError
  | MsgpackError string
  | SqlError string
  | Errorf string

text \<open>Run-time panics: a call through a nil pointer or nil interface, and an index out of range.\<close>

datatype go_panic = NilDereference | IndexOutOfRange

text \<open>
  A \<^verbatim>\<open>net.Conn\<close> as one side sees it: \<open>incoming\<close> holds the bytes the peer sends
  before it closes its side (after them a read meets end of file), \<open>outgoing\<close> the bytes
  written so far, \<open>broken\<close> says that writes fail, \<open>closed\<close> that this side has
  called \<^verbatim>\<open>Close\<close>.
\<close>

record netconn =
  incoming :: "byte list"
  outgoing :: "byte list"
  broken :: bool
  closed :: bool

text \<open>
  \<^verbatim>\<open>io.ReadFull(conn, buf)\<close> with \<^verbatim>\<open>len(buf) = n\<close>: exactly \<open>n\<close> bytes, or
  \<^verbatim>\<open>io.EOF\<close> when no byte could be read and \<^verbatim>\<open>io.ErrUnexpectedEOF\<close> when the stream
  ended after some but not all of them.
\<close>

definition ReadFull :: "netconn \<Rightarrow> nat \<Rightarrow> (go_error + byte list) \<times> netconn" where
  "ReadFull c n =
     (if n \<le> length (incoming c)
      then (Inr (take n (incoming c)), c\<lparr>incoming := drop n (incoming c)\<rparr>)
      else if incoming c = [] then (Inl EOF, c)
      else (Inl ErrUnexpectedEOF, c\<lparr>incoming := []\<rparr>))"

text \<open>\<^verbatim>\<open>conn.Write(b)\<close>: appends to the stream, or fails on a broken connection.\<close>

definition Write :: "netconn \<Rightarrow> byte list \<Rightarrow> go_error option \<times> netconn" where
  "Write c b =
     (if broken c then (Some NetError, c)
      else (None, c\<lparr>outgoing := outgoing c @ b\<rparr>))"

text \<open>\<^verbatim>\<open>conn.Close()\<close>.\<close>

definition Close :: "netconn \<Rightarrow> netconn" where
  "Close c = c\<lparr>closed := True\<rparr>"

text \<open>
  \<^verbatim>\<open>binary.BigEndian.Uint32(lengthBytes[:])\<close> and \<^verbatim>\<open>binary.BigEndian.PutUint32\<close>.
  The source applies \<open>Uint32\<close> to a \<^verbatim>\<open>[4]byte\<close> array only, so the second equation
  is never reached.
\<close>

fun Uint32 :: "byte list \<Rightarrow> uint32" where
  "Uint32 (b0 # b1 # b2 # b3 # _) =
     push_bit 24 (ucast b0) OR push_bit 16 (ucast b1) OR push_bit 8 (ucast b2) OR ucast b3"
| "Uint32 _ = 0"

definition PutUint32 :: "uint32 \<Rightarrow> byte list" where
  "PutUint32 v = [ucast (drop_bit 24 v), ucast (drop_bit 16 v), ucast (drop_bit 8 v), ucast v]"

text \<open>
  Reading one frame, as written out four times in the source (\<^verbatim>\<open>handleConnection\<close> of
  both entry points, lines 80-91 and 85-96; \<^verbatim>\<open>readQueryResponse\<close> and
  \<^verbatim>\<open>readExecResponse\<close> of the driver, lines 177-189 and 202-213): four length bytes,
  \<^verbatim>\<open>make([]byte, length)\<close>, then \<^verbatim>\<open>length\<close> payload bytes. The second component
  lists the sizes of the buffers allocated with \<^verbatim>\<open>make\<close>.
\<close>

definition readFrame :: "netconn \<Rightarrow> (go_error + byte list) \<times> nat list \<times> netconn" where
  "readFrame c =
     (case ReadFull c 4 of
        (Inl err, c1) \<Rightarrow> (Inl err, [], c1)
      | (Inr lengthBytes, c1) \<Rightarrow>
          (let length = Uint32 lengthBytes in
           case ReadFull c1 (unat length) of
             (Inl err, c2) \<Rightarrow> (Inl err, [unat length], c2)
           | (Inr requestData, c2) \<Rightarrow> (Inr requestData, [unat length], c2)))"

section \<open>Messages and the libraries the code calls\<close>

text \<open>
  The four message structs, declared alike in all three source files. The type variable
  \<open>'v\<close> stands for Go's \<^verbatim>\<open>interface{}\<close> (\<^verbatim>\<open>driver.Value\<close> in the driver).
\<close>

record 'v QueryRequest =
  Query :: string
  Args :: "'v list"

record 'v ExecRequest =
  ExecQuery :: string
  ExecArgs :: "'v list"

record 'v QueryResponse =
  Columns :: "string list"
  Data :: "'v list list"

record ExecResponse =
  RowsAffected :: int64
  LastInsertID :: int64

text \<open>The \<^verbatim>\<open>interface{}\<close> argument of \<^verbatim>\<open>sendRequest\<close> and \<^verbatim>\<open>sendResponse\<close>.\<close>

datatype 'v message =
    IQueryRequest "'v QueryRequest"
  | IExecRequest "'v ExecRequest"
  | IQueryResponse "'v QueryResponse"
  | IExecResponse ExecResponse

text \<open>
  What \<^verbatim>\<open>db.Query\<close> hands back on success: the result of \<^verbatim>\<open>rows.Columns()\<close> and
  the rows that \<^verbatim>\<open>rows.Next()\<close> yields, each a list of column values. What
  \<^verbatim>\<open>db.Exec\<close> hands back: the first results of \<^verbatim>\<open>RowsAffected()\<close> and
  \<^verbatim>\<open>LastInsertId()\<close>, whose errors the code discards.
\<close>

record 'v sqlRows =
  sql_columns :: "string list"
  sql_columns_err :: "go_error option"
  sql_rows :: "'v list list"

record sqlResult =
  sql_RowsAffected :: int64
  sql_LastInsertId :: int64

text \<open>
  The code of the msgpack library, of the packages \<^verbatim>\<open>strings\<close> and
  \<^verbatim>\<open>database/sql\<close> and of the backing engine is not part of the repository: the model
  takes them as a parameter \<open>env\<close>, and every theorem holds for every \<open>env\<close>.
  \<^item> msgpack writes a struct as a map from its field tags to its field values, so
    \<^verbatim>\<open>QueryRequest\<close> and \<^verbatim>\<open>ExecRequest\<close>, which declare the same tags and field
    types, share one encoder and one decoder. A decoder returns the error and the fields
    as it leaves them.
  \<^item> \<open>db_Query\<close> and \<open>db_Exec\<close> take and return the state \<open>'db\<close> of the engine.
  \<^item> \<open>nil\<close> is the nil value of \<^verbatim>\<open>interface{}\<close>.
\<close>

record ('db, 'v) env =
  mp_encode_request :: "string \<Rightarrow> 'v list \<Rightarrow> go_error + byte list"
  mp_decode_request :: "byte list \<Rightarrow> go_error option \<times> string \<times> 'v list"
  mp_encode_query_response :: "string list \<Rightarrow> 'v list list \<Rightarrow> go_error + byte list"
  mp_decode_query_response :: "byte list \<Rightarrow> go_error option \<times> string list \<times> 'v list list"
  mp_encode_exec_response :: "int64 \<Rightarrow> int64 \<Rightarrow> go_error + byte list"
  mp_decode_exec_response :: "byte list \<Rightarrow> go_error option \<times> int64 \<times> int64"
  strings_TrimSpace :: "string \<Rightarrow> string"
  strings_Fields :: "string \<Rightarrow> string list"
  strings_ToUpper :: "string \<Rightarrow> string"
  db_Query :: "'db \<Rightarrow> string \<Rightarrow> 'v list \<Rightarrow> (go_error + 'v sqlRows) \<times> 'db"
  db_Exec :: "'db \<Rightarrow> string \<Rightarrow> 'v list \<Rightarrow> (go_error + sqlResult) \<times> 'db"
  nil :: 'v

text \<open>\<^verbatim>\<open>msgpack.Marshal(v)\<close> and \<^verbatim>\<open>msgpack.Unmarshal(data, &v)\<close> at the four structs.\<close>

definition Marshal :: "('db, 'v) env \<Rightarrow> 'v message \<Rightarrow> go_error + byte list" where
  "Marshal env v =
     (case v of
        IQueryRequest r \<Rightarrow> mp_encode_request env (Query r) (Args r)
      | IExecRequest r \<Rightarrow> mp_encode_request env (ExecQuery r) (ExecArgs r)
      | IQueryResponse r \<Rightarrow> mp_encode_query_response env (Columns r) (Data r)
      | IExecResponse r \<Rightarrow> mp_encode_exec_response env (RowsAffected r) (LastInsertID r))"

definition Unmarshal_QueryRequest ::
  "('db, 'v) env \<Rightarrow> byte list \<Rightarrow> go_error option \<times> 'v QueryRequest" where
  "Unmarshal_QueryRequest env data =
     (case mp_decode_request env data of (err, q, a) \<Rightarrow> (err, \<lparr>Query = q, Args = a\<rparr>))"

definition Unmarshal_ExecRequest ::
  "('db, 'v) env \<Rightarrow> byte list \<Rightarrow> go_error option \<times> 'v ExecRequest" where
  "Unmarshal_ExecRequest env data =
     (case mp_decode_request env data of (err, q, a) \<Rightarrow> (err, \<lparr>ExecQuery = q, ExecArgs = a\<rparr>))"

definition Unmarshal_QueryResponse ::
  "('db, 'v) env \<Rightarrow> byte list \<Rightarrow> go_error option \<times> 'v QueryResponse" where
  "Unmarshal_QueryResponse env data =
     (case mp_decode_query_response env data of (err, c, d) \<Rightarrow> (err, \<lparr>Columns = c, Data = d\<rparr>))"

definition Unmarshal_ExecResponse ::
  "('db, 'v) env \<Rightarrow> byte list \<Rightarrow> go_error option \<times> ExecResponse" where
  "Unmarshal_ExecResponse env data =
     (case mp_decode_exec_response env data of
        (err, n, i) \<Rightarrow> (err, \<lparr>RowsAffected = n, LastInsertID = i\<rparr>))"

text \<open>
  A pointer or interface value that may be nil, and its use: a method call through nil
  panics.
\<close>

definition deref :: "'a option \<Rightarrow> go_panic + 'a" where
  "deref p = (case p of None \<Rightarrow> Inl NilDereference | Some x \<Rightarrow> Inr x)"

text \<open>
  \<^verbatim>\<open>values := make([]interface{}, len(cols))\<close> followed by \<^verbatim>\<open>rows.Scan(pointers...)\<close>,
  whose error the code discards: \<^verbatim>\<open>Scan\<close> fills the values when their number is the
  number of columns of the row and leaves them nil otherwise.
\<close>

definition Scan :: "('db, 'v) env \<Rightarrow> nat \<Rightarrow> 'v list \<Rightarrow> 'v list" where
  "Scan env n row = (if length row = n then row else replicate n (nil env))"

text \<open>\<^verbatim>\<open>rows.Columns()\<close> on rows that are not nil: the columns and the error.\<close>

definition sqlRows_Columns :: "'v sqlRows \<Rightarrow> string list \<times> go_error option" where
  "sqlRows_Columns rs =
     (case sql_columns_err rs of
        Some err \<Rightarrow> ([], Some err)
      | None \<Rightarrow> (sql_columns rs, None))"

section \<open>The server\<close>

text \<open>
  What one connection's goroutine can be observed to do besides writing to the socket:
  allocate a buffer, print the line of \<^verbatim>\<open>handleQuery\<close> or \<^verbatim>\<open>handleExec\<close>, call
  \<^verbatim>\<open>db.Query\<close> or \<^verbatim>\<open>db.Exec\<close>.
\<close>

datatype 'v event =
    Alloc nat
  | LogQuery string "'v list"
  | LogExec string "'v list"
  | DbQuery string "'v list"
  | DbExec string "'v list"

record ('db, 'v) server =
  sock :: netconn
  db :: 'db
  events :: "'v event list"

text \<open>How the loop of \<^verbatim>\<open>handleConnection\<close> ends.\<close>

datatype stop = ReadError go_error | HandlerError go_error | Crash go_panic

text \<open>\<^verbatim>\<open>sendResponse\<close> (the same in both entry points): it returns nothing.\<close>

definition sendResponse :: "('db, 'v) env \<Rightarrow> netconn \<Rightarrow> 'v message \<Rightarrow> netconn" where
  "sendResponse env conn response =
     (case Marshal env response of
        Inl err \<Rightarrow> conn
      | Inr data \<Rightarrow>
          (case Write conn (PutUint32 (of_nat (length data))) of
             (Some err, conn1) \<Rightarrow> conn1
           | (None, conn1) \<Rightarrow> snd (Write conn1 data)))"

subsection \<open>\<^verbatim>\<open>src/cmd/proxy/main.go\<close>\<close>

definition isQuery_proxy :: "('db, 'v) env \<Rightarrow> byte list \<Rightarrow> bool" where
  "isQuery_proxy env data = (fst (Unmarshal_QueryRequest env data) = None)"

text \<open>
  \<^verbatim>\<open>handleQuery\<close>: every error is discarded. After a failed \<^verbatim>\<open>db.Query\<close> the variable
  \<^verbatim>\<open>rows\<close> is nil, and \<^verbatim>\<open>rows.Columns()\<close> (line 115) and the deferred
  \<^verbatim>\<open>rows.Close()\<close> (line 113) go through it.
\<close>

definition handleQuery_proxy ::
  "('db, 'v) env \<Rightarrow> ('db, 'v) server \<Rightarrow> byte list \<Rightarrow> go_panic option \<times> ('db, 'v) server" where
  "handleQuery_proxy env s data =
     (let req = snd (Unmarshal_QueryRequest env data);
          s1 = s\<lparr>events := events s @ [LogQuery (Query req) (Args req)]\<rparr>;
          (r, db') = db_Query env (db s1) (Query req) (Args req);
          s2 = s1\<lparr>db := db', events := events s1 @ [DbQuery (Query req) (Args req)]\<rparr>;
          rows = (case r of Inl err \<Rightarrow> None | Inr x \<Rightarrow> Some x)
      in case deref rows of
           Inl p \<Rightarrow> (Some p, s2)
         | Inr rs \<Rightarrow>
             (let cols = fst (sqlRows_Columns rs);
                  results = map (Scan env (length cols)) (sql_rows rs)
              in (None, s2\<lparr>sock := sendResponse env (sock s2)
                                     (IQueryResponse \<lparr>Columns = cols, Data = results\<rparr>)\<rparr>)))"

text \<open>
  \<^verbatim>\<open>handleExec\<close>: after a failed \<^verbatim>\<open>db.Exec\<close> the interface value \<^verbatim>\<open>result\<close> is
  nil, and \<^verbatim>\<open>result.RowsAffected()\<close> (line 138) is called on it.
\<close>

definition handleExec_proxy ::
  "('db, 'v) env \<Rightarrow> ('db, 'v) server \<Rightarrow> byte list \<Rightarrow> go_panic option \<times> ('db, 'v) server" where
  "handleExec_proxy env s data =
     (let req = snd (Unmarshal_ExecRequest env data);
          s1 = s\<lparr>events := events s @ [LogExec (ExecQuery req) (ExecArgs req)]\<rparr>;
          (r, db') = db_Exec env (db s1) (ExecQuery req) (ExecArgs req);
          s2 = s1\<lparr>db := db', events := events s1 @ [DbExec (ExecQuery req) (ExecArgs req)]\<rparr>;
          result = (case r of Inl err \<Rightarrow> None | Inr x \<Rightarrow> Some x)
      in case deref result of
           Inl p \<Rightarrow> (Some p, s2)
         | Inr res \<Rightarrow>
             (let rows = sql_RowsAffected res;
                  lastID = sql_LastInsertId res
              in (None, s2\<lparr>sock := sendResponse env (sock s2)
                                     (IExecResponse \<lparr>RowsAffected = rows, LastInsertID = lastID\<rparr>)\<rparr>)))"

text \<open>
  One turn of the loop of \<^verbatim>\<open>handleConnection\<close> (lines 80-97): \<open>None\<close> when the loop
  goes on.
\<close>

definition turn_proxy ::
  "('db, 'v) env \<Rightarrow> ('db, 'v) server \<Rightarrow> stop option \<times> ('db, 'v) server" where
  "turn_proxy env s =
     (case readFrame (sock s) of
        (Inl err, allocs, c) \<Rightarrow>
          (Some (ReadError err), s\<lparr>sock := c, events := events s @ map Alloc allocs\<rparr>)
      | (Inr requestData, allocs, c) \<Rightarrow>
          (let s1 = s\<lparr>sock := c, events := events s @ map Alloc allocs\<rparr>
           in case (if isQuery_proxy env requestData
                    then handleQuery_proxy env s1 requestData
                    else handleExec_proxy env s1 requestData) of
                (Some p, s2) \<Rightarrow> (Some (Crash p), s2)
              | (None, s2) \<Rightarrow> (None, s2)))"

function handleConnection_proxy ::
  "('db, 'v) env \<Rightarrow> ('db, 'v) server \<Rightarrow> stop \<times> ('db, 'v) server" where
  "handleConnection_proxy env s =
     (case turn_proxy env s of
        (Some st, s') \<Rightarrow> (st, s'\<lparr>sock := Close (sock s')\<rparr>)
      | (None, s') \<Rightarrow> handleConnection_proxy env s')"
  by pat_completeness auto

lemma incoming_sendResponse: "incoming (sendResponse env c r) = incoming c"
  by (simp add: sendResponse_def Write_def split: sum.splits option.splits prod.splits)

lemma incoming_handleQuery_proxy:
  "incoming (sock (snd (handleQuery_proxy env s data))) = incoming (sock s)"
  by (simp add: handleQuery_proxy_def Let_def incoming_sendResponse
      split: sum.splits prod.splits)

lemma incoming_handleExec_proxy:
  "incoming (sock (snd (handleExec_proxy env s data))) = incoming (sock s)"
  by (simp add: handleExec_proxy_def Let_def incoming_sendResponse
      split: sum.splits prod.splits)

lemma readFrame_shorter:
  "readFrame c = (Inr d, a, c') \<Longrightarrow> length (incoming c') < length (incoming c)"
  by (auto simp add: readFrame_def ReadFull_def Let_def split: if_splits)

lemma turn_proxy_shorter:
  assumes "turn_proxy env s = (None, s')"
  shows "length (incoming (sock s')) < length (incoming (sock s))"
proof (cases "readFrame (sock s)")
  case (fields r a c)
  show ?thesis
  proof (cases r)
    case (Inl e)
    with fields assms show ?thesis by (simp add: turn_proxy_def)
  next
    case (Inr d)
    let ?s1 = "s\<lparr>sock := c, events := events s @ map Alloc a\<rparr>"
    from fields Inr have lt: "length (incoming c) < length (incoming (sock s))"
      by (auto dest: readFrame_shorter)
    from fields Inr assms have
      "s' = snd (handleQuery_proxy env ?s1 d) \<or> s' = snd (handleExec_proxy env ?s1 d)"
      by (auto simp add: turn_proxy_def Let_def split: if_splits prod.splits option.splits)
    then have "incoming (sock s') = incoming c"
      by (auto simp add: incoming_handleQuery_proxy incoming_handleExec_proxy)
    with lt show ?thesis by simp
  qed
qed

termination handleConnection_proxy
  by (relation "measure (\<lambda>(env, s). length (incoming (sock s)))")
     (auto dest: turn_proxy_shorter [OF sym])

declare handleConnection_proxy.simps [simp del]

subsection \<open>\<^verbatim>\<open>src/unnamed/part_000\<close>\<close>

text \<open>
  \<^verbatim>\<open>isQuery\<close>: \<^verbatim>\<open>strings.Fields(query)[0]\<close> panics when the query has no field.
\<close>

definition isQuery_svc :: "('db, 'v) env \<Rightarrow> byte list \<Rightarrow> go_panic + bool" where
  "isQuery_svc env data =
     (case Unmarshal_QueryRequest env data of
        (Some err, temp) \<Rightarrow> Inr False
      | (None, temp) \<Rightarrow>
          (let query = strings_TrimSpace env (Query temp)
           in case strings_Fields env query of
                [] \<Rightarrow> Inl IndexOutOfRange
              | w # _ \<Rightarrow> Inr (strings_ToUpper env w = ''SELECT'')))"

definition handleQuery_svc ::
  "('db, 'v) env \<Rightarrow> ('db, 'v) server \<Rightarrow> byte list \<Rightarrow> go_error option \<times> ('db, 'v) server" where
  "handleQuery_svc env s data =
     (case Unmarshal_QueryRequest env data of
        (Some err, req) \<Rightarrow> (Some err, s)
      | (None, req) \<Rightarrow>
          (let s1 = s\<lparr>events := events s @ [LogQuery (Query req) (Args req)]\<rparr>;
               (r, db') = db_Query env (db s1) (Query req) (Args req);
               s2 = s1\<lparr>db := db', events := events s1 @ [DbQuery (Query req) (Args req)]\<rparr>
           in case r of
                Inl err \<Rightarrow> (Some err, s2)
              | Inr rows \<Rightarrow>
                  (case sqlRows_Columns rows of
                     (cols, Some err) \<Rightarrow> (Some err, s2)
                   | (cols, None) \<Rightarrow>
                       (let results = map (Scan env (length cols)) (sql_rows rows)
                        in (None, s2\<lparr>sock := sendResponse env (sock s2)
                                     (IQueryResponse \<lparr>Columns = cols, Data = results\<rparr>)\<rparr>)))))"

definition handleExec_svc ::
  "('db, 'v) env \<Rightarrow> ('db, 'v) server \<Rightarrow> byte list \<Rightarrow> go_error option \<times> ('db, 'v) server" where
  "handleExec_svc env s data =
     (case Unmarshal_ExecRequest env data of
        (Some err, req) \<Rightarrow> (Some err, s)
      | (None, req) \<Rightarrow>
          (let s1 = s\<lparr>events := events s @ [LogExec (ExecQuery req) (ExecArgs req)]\<rparr>;
               (r, db') = db_Exec env (db s1) (ExecQuery req) (ExecArgs req);
               s2 = s1\<lparr>db := db', events := events s1 @ [DbExec (ExecQuery req) (ExecArgs req)]\<rparr>
           in case r of
                Inl err \<Rightarrow> (Some err, s2)
              | Inr result \<Rightarrow>
                  (let rows = sql_RowsAffected result;
                       lastID = sql_LastInsertId result
                   in (None, s2\<lparr>sock := sendResponse env (sock s2)
                                     (IExecResponse \<lparr>RowsAffected = rows, LastInsertID = lastID\<rparr>)\<rparr>))))"

text \<open>One turn of the loop of \<^verbatim>\<open>handleConnection\<close> (lines 85-106).\<close>

definition turn_svc ::
  "('db, 'v) env \<Rightarrow> ('db, 'v) server \<Rightarrow> stop option \<times> ('db, 'v) server" where
  "turn_svc env s =
     (case readFrame (sock s) of
        (Inl err, allocs, c) \<Rightarrow>
          (Some (ReadError err), s\<lparr>sock := c, events := events s @ map Alloc allocs\<rparr>)
      | (Inr requestData, allocs, c) \<Rightarrow>
          (let s1 = s\<lparr>sock := c, events := events s @ map Alloc allocs\<rparr>
           in case isQuery_svc env requestData of
                Inl p \<Rightarrow> (Some (Crash p), s1)
              | Inr True \<Rightarrow>
                  (case handleQuery_svc env s1 requestData of
                     (Some err, s2) \<Rightarrow> (Some (HandlerError err), s2)
                   | (None, s2) \<Rightarrow> (None, s2))
              | Inr False \<Rightarrow>
                  (case handleExec_svc env s1 requestData of
                     (Some err, s2) \<Rightarrow> (Some (HandlerError err), s2)
                   | (None, s2) \<Rightarrow> (None, s2))))"

function handleConnection_svc ::
  "('db, 'v) env \<Rightarrow> ('db, 'v) server \<Rightarrow> stop \<times> ('db, 'v) server" where
  "handleConnection_svc env s =
     (case turn_svc env s of
        (Some st, s') \<Rightarrow> (st, s'\<lparr>sock := Close (sock s')\<rparr>)
      | (None, s') \<Rightarrow> handleConnection_svc env s')"
  by pat_completeness auto

lemma incoming_handleQuery_svc:
  "incoming (sock (snd (handleQuery_svc env s data))) = incoming (sock s)"
  by (simp add: handleQuery_svc_def Let_def incoming_sendResponse
      split: sum.splits prod.splits option.splits)

lemma incoming_handleExec_svc:
  "incoming (sock (snd (handleExec_svc env s data))) = incoming (sock s)"
  by (simp add: handleExec_svc_def Let_def incoming_sendResponse
      split: sum.splits prod.splits option.splits)

lemma turn_svc_shorter:
  assumes "turn_svc env s = (None, s')"
  shows "length (incoming (sock s')) < length (incoming (sock s))"
proof (cases "readFrame (sock s)")
  case (fields r a c)
  show ?thesis
  proof (cases r)
    case (Inl e)
    with fields assms show ?thesis by (simp add: turn_svc_def)
  next
    case (Inr d)
    let ?s1 = "s\<lparr>sock := c, events := events s @ map Alloc a\<rparr>"
    from fields Inr have lt: "length (incoming c) < length (incoming (sock s))"
      by (auto dest: readFrame_shorter)
    from fields Inr assms have
      "s' = snd (handleQuery_svc env ?s1 d) \<or> s' = snd (handleExec_svc env ?s1 d)"
      by (auto simp add: turn_svc_def Let_def
          split: if_splits prod.splits option.splits sum.splits bool.splits)
    then have "incoming (sock s') = incoming c"
      by (auto simp add: incoming_handleQuery_svc incoming_handleExec_svc)
    with lt show ?thesis by simp
  qed
qed

termination handleConnection_svc
  by (relation "measure (\<lambda>(env, s). length (incoming (sock s)))")
     (auto dest: turn_svc_shorter [OF sym])

declare handleConnection_svc.simps [simp del]

section \<open>The client driver (\<^verbatim>\<open>src/unnamed/part_001\<close>)\<close>

record Conn =
  conn :: netconn

text \<open>
  A \<^verbatim>\<open>Stmt\<close> holds the query and the socket of the \<^verbatim>\<open>Conn\<close> that prepared it. The
  socket is shared, so the functions of a statement take its state and return it.
\<close>

record Stmt =
  query :: string

datatype Tx = Tx

definition Prepare :: "Conn \<Rightarrow> string \<Rightarrow> (Stmt \<times> go_error option) \<times> Conn" where
  "Prepare c q = ((\<lparr>query = q\<rparr>, None), c)"

definition Conn_Close :: "Conn \<Rightarrow> go_error option \<times> Conn" where
  "Conn_Close c = (None, c\<lparr>conn := Close (conn c)\<rparr>)"

text \<open>\<^verbatim>\<open>Begin\<close> returns \<^verbatim>\<open>nil, fmt.Errorf("transactions are not supported")\<close>.\<close>

definition Begin :: "Conn \<Rightarrow> (Tx option \<times> go_error option) \<times> Conn" where
  "Begin c = ((None, Some (Errorf ''transactions are not supported'')), c)"

definition Stmt_Close :: "Stmt \<Rightarrow> go_error option" where
  "Stmt_Close s = None"

definition NumInput :: "Stmt \<Rightarrow> int" where
  "NumInput s = - 1"

definition sendRequest ::
  "('db, 'v) env \<Rightarrow> netconn \<Rightarrow> 'v message \<Rightarrow> go_error option \<times> netconn" where
  "sendRequest env c request =
     (case Marshal env request of
        Inl err \<Rightarrow> (Some err, c)
      | Inr data \<Rightarrow>
          (let length = (of_nat (length data) :: uint32)
           in case Write c (PutUint32 length) of
                (Some err, c1) \<Rightarrow> (Some err, c1)
              | (None, c1) \<Rightarrow> Write c1 data))"

definition readQueryResponse ::
  "('db, 'v) env \<Rightarrow> netconn \<Rightarrow> (go_error + 'v QueryResponse) \<times> netconn" where
  "readQueryResponse env c =
     (case readFrame c of
        (Inl err, allocs, c1) \<Rightarrow> (Inl err, c1)
      | (Inr data, allocs, c1) \<Rightarrow>
          (case Unmarshal_QueryResponse env data of
             (Some err, response) \<Rightarrow> (Inl err, c1)
           | (None, response) \<Rightarrow> (Inr response, c1)))"

definition readExecResponse ::
  "('db, 'v) env \<Rightarrow> netconn \<Rightarrow> (go_error + ExecResponse) \<times> netconn" where
  "readExecResponse env c =
     (case readFrame c of
        (Inl err, allocs, c1) \<Rightarrow> (Inl err, c1)
      | (Inr data, allocs, c1) \<Rightarrow>
          (case Unmarshal_ExecResponse env data of
             (Some err, response) \<Rightarrow> (Inl err, c1)
           | (None, response) \<Rightarrow> (Inr response, c1)))"

record 'v Rows =
  columns :: "string list"
  data :: "'v list list"
  index :: nat

record Result =
  lastInsertID :: int64
  rowsAffected :: int64

definition Stmt_Query ::
  "('db, 'v) env \<Rightarrow> Stmt \<Rightarrow> netconn \<Rightarrow> 'v list \<Rightarrow> (go_error + 'v Rows) \<times> netconn" where
  "Stmt_Query env s c args =
     (let request = IQueryRequest \<lparr>Query = query s, Args = args\<rparr>
      in case sendRequest env c request of
           (Some err, c1) \<Rightarrow> (Inl err, c1)
         | (None, c1) \<Rightarrow>
             (case readQueryResponse env c1 of
                (Inl err, c2) \<Rightarrow> (Inl err, c2)
              | (Inr response, c2) \<Rightarrow>
                  (Inr \<lparr>columns = Columns response, data = Data response, index = 0\<rparr>, c2)))"

definition Stmt_Exec ::
  "('db, 'v) env \<Rightarrow> Stmt \<Rightarrow> netconn \<Rightarrow> 'v list \<Rightarrow> (go_error + Result) \<times> netconn" where
  "Stmt_Exec env s c args =
     (let request = IExecRequest \<lparr>ExecQuery = query s, ExecArgs = args\<rparr>
      in case sendRequest env c request of
           (Some err, c1) \<Rightarrow> (Inl err, c1)
         | (None, c1) \<Rightarrow>
             (case readExecResponse env c1 of
                (Inl err, c2) \<Rightarrow> (Inl err, c2)
              | (Inr response, c2) \<Rightarrow>
                  (Inr \<lparr>lastInsertID = LastInsertID response,
                        rowsAffected = RowsAffected response\<rparr>, c2)))"

definition Rows_Columns :: "'v Rows \<Rightarrow> string list" where
  "Rows_Columns r = columns r"

text \<open>
  Go's \<^verbatim>\<open>copy(dest, src)\<close> overwrites the first \<^verbatim>\<open>min(len(dest), len(src))\<close> elements
  of \<^verbatim>\<open>dest\<close>.
\<close>

definition copy :: "'a list \<Rightarrow> 'a list \<Rightarrow> 'a list" where
  "copy dest src = take (length dest) src @ drop (length src) dest"

text \<open>\<^verbatim>\<open>Rows.Next(dest)\<close>: the error, the cursor and the contents of \<^verbatim>\<open>dest\<close> after the call.\<close>

definition Rows_Next :: "'v Rows \<Rightarrow> 'v list \<Rightarrow> go_error option \<times> 'v Rows \<times> 'v list" where
  "Rows_Next r dest =
     (if index r \<ge> length (data r) then (Some EOF, r, dest)
      else (None, r\<lparr>index := index r + 1\<rparr>, copy dest (data r ! index r)))"

definition Rows_Close :: "'v Rows \<Rightarrow> go_error option" where
  "Rows_Close r = None"

definition LastInsertId :: "Result \<Rightarrow> int64 \<times> go_error option" where
  "LastInsertId r = (lastInsertID r, None)"

definition Result_RowsAffected :: "Result \<Rightarrow> int64 \<times> go_error option" where
  "Result_RowsAffected r = (rowsAffected r, None)"

section \<open>An instance of the libraries\<close>

text \<open>
  For evaluation on concrete inputs the parameter \<open>env\<close> is instantiated by
  \<open>demo_env\<close>: a codec for a fragment of the MessagePack format (nil, booleans,
  64-bit integers, and strings, arrays and maps with a one-byte header), the three
  functions of \<^verbatim>\<open>strings\<close> on ASCII text, and an engine that knows three statements.
  Outside the fragment the codec reports an error.
\<close>

datatype cell = CNull | CBool bool | CInt int64 | CText string

definition bytes_of :: "string \<Rightarrow> byte list" where
  "bytes_of s = map of_char s"

definition string_of :: "byte list \<Rightarrow> string" where
  "string_of b = map (\<lambda>x. char_of (unat x)) b"

definition enc_str :: "string \<Rightarrow> byte list option" where
  "enc_str s = (if length s < 32 then Some ((0xa0 + of_nat (length s)) # bytes_of s) else None)"

definition dec_str :: "byte list \<Rightarrow> (string \<times> byte list) option" where
  "dec_str b =
     (case b of
        [] \<Rightarrow> None
      | h # t \<Rightarrow>
          if 0xa0 \<le> h \<and> h \<le> 0xbf \<and> unat (h - 0xa0) \<le> length t
          then Some (string_of (take (unat (h - 0xa0)) t), drop (unat (h - 0xa0)) t)
          else None)"

definition enc_int64 :: "int64 \<Rightarrow> byte list" where
  "enc_int64 v = 0xd3 # map (\<lambda>i. ucast (drop_bit (8 * i) v)) [7, 6, 5, 4, 3, 2, 1, 0]"

definition dec_int64 :: "byte list \<Rightarrow> (int64 \<times> byte list) option" where
  "dec_int64 b =
     (case b of
        [] \<Rightarrow> None
      | h # t \<Rightarrow>
          if h = 0xd3 \<and> 8 \<le> length t
          then Some (foldl (\<lambda>acc x. push_bit 8 acc OR ucast x) 0 (take 8 t), drop 8 t)
          else None)"

fun enc_cell :: "cell \<Rightarrow> byte list option" where
  "enc_cell CNull = Some [0xc0]"
| "enc_cell (CBool b) = Some [if b then 0xc3 else 0xc2]"
| "enc_cell (CInt v) = Some (enc_int64 v)"
| "enc_cell (CText s) = enc_str s"

definition dec_cell :: "byte list \<Rightarrow> (cell \<times> byte list) option" where
  "dec_cell b =
     (case b of
        [] \<Rightarrow> None
      | h # t \<Rightarrow>
          if h = 0xc0 then Some (CNull, t)
          else if h = 0xc2 then Some (CBool False, t)
          else if h = 0xc3 then Some (CBool True, t)
          else if h = 0xd3 then map_option (\<lambda>(v, r). (CInt v, r)) (dec_int64 b)
          else map_option (\<lambda>(s, r). (CText s, r)) (dec_str b))"

fun enc_all :: "('a \<Rightarrow> byte list option) \<Rightarrow> 'a list \<Rightarrow> byte list option" where
  "enc_all f [] = Some []"
| "enc_all f (x # xs) =
     (case f x of
        None \<Rightarrow> None
      | Some b \<Rightarrow> map_option ((@) b) (enc_all f xs))"

definition enc_array :: "('a \<Rightarrow> byte list option) \<Rightarrow> 'a list \<Rightarrow> byte list option" where
  "enc_array f xs =
     (if length xs < 16 then map_option ((#) (0x90 + of_nat (length xs))) (enc_all f xs)
      else None)"

fun dec_n ::
  "nat \<Rightarrow> (byte list \<Rightarrow> ('a \<times> byte list) option) \<Rightarrow> byte list
     \<Rightarrow> ('a list \<times> byte list) option" where
  "dec_n 0 f b = Some ([], b)"
| "dec_n (Suc n) f b =
     (case f b of
        None \<Rightarrow> None
      | Some (x, r) \<Rightarrow> map_option (\<lambda>(xs, r'). (x # xs, r')) (dec_n n f r))"

text \<open>A nil slice is written as nil (\<open>0xc0\<close>) and read back as the empty list.\<close>

definition dec_array ::
  "(byte list \<Rightarrow> ('a \<times> byte list) option) \<Rightarrow> byte list \<Rightarrow> ('a list \<times> byte list) option" where
  "dec_array f b =
     (case b of
        [] \<Rightarrow> None
      | h # t \<Rightarrow>
          if h = 0xc0 then Some ([], t)
          else if 0x90 \<le> h \<and> h \<le> 0x9f then dec_n (unat (h - 0x90)) f t
          else None)"

definition fragment :: go_error where
  "fragment = MsgpackError ''msgpack: outside the fragment''"

text \<open>A struct is a map of two entries (\<open>0x82\<close>), keyed by the field tags in order.\<close>

definition enc_struct ::
  "string \<Rightarrow> byte list option \<Rightarrow> string \<Rightarrow> byte list option \<Rightarrow> go_error + byte list" where
  "enc_struct k1 v1 k2 v2 =
     (case (enc_str k1, v1, enc_str k2, v2) of
        (Some a, Some b, Some c, Some d) \<Rightarrow> Inr (0x82 # a @ b @ c @ d)
      | _ \<Rightarrow> Inl fragment)"

definition demo_encode_request :: "string \<Rightarrow> cell list \<Rightarrow> go_error + byte list" where
  "demo_encode_request q a = enc_struct ''query'' (enc_str q) ''args'' (enc_array enc_cell a)"

definition demo_encode_query_response ::
  "string list \<Rightarrow> cell list list \<Rightarrow> go_error + byte list" where
  "demo_encode_query_response c d =
     enc_struct ''columns'' (enc_array enc_str c)
       ''data'' (if d = [] then Some [0xc0] else enc_array (enc_array enc_cell) d)"

definition demo_encode_exec_response :: "int64 \<Rightarrow> int64 \<Rightarrow> go_error + byte list" where
  "demo_encode_exec_response n i =
     enc_struct ''rows_affected'' (Some (enc_int64 n)) ''last_insert_id'' (Some (enc_int64 i))"

text \<open>
  Decoding into a struct of two fields: for each entry of the map the key, then the value
  of the field with that tag. The fields decoded before an error stay.
\<close>

fun dec_fields ::
  "nat \<Rightarrow> string \<Rightarrow> (byte list \<Rightarrow> ('a \<times> byte list) option)
     \<Rightarrow> string \<Rightarrow> (byte list \<Rightarrow> ('b \<times> byte list) option)
     \<Rightarrow> byte list \<Rightarrow> 'a \<times> 'b \<Rightarrow> go_error option \<times> 'a \<times> 'b" where
  "dec_fields 0 k1 f1 k2 f2 b (x, y) = (None, x, y)"
| "dec_fields (Suc n) k1 f1 k2 f2 b (x, y) =
     (case dec_str b of
        None \<Rightarrow> (Some fragment, x, y)
      | Some (k, r) \<Rightarrow>
          if k = k1 then
            (case f1 r of
               None \<Rightarrow> (Some fragment, x, y)
             | Some (x', r') \<Rightarrow> dec_fields n k1 f1 k2 f2 r' (x', y))
          else if k = k2 then
            (case f2 r of
               None \<Rightarrow> (Some fragment, x, y)
             | Some (y', r') \<Rightarrow> dec_fields n k1 f1 k2 f2 r' (x, y'))
          else (Some fragment, x, y))"

definition dec_struct ::
  "string \<Rightarrow> (byte list \<Rightarrow> ('a \<times> byte list) option)
     \<Rightarrow> string \<Rightarrow> (byte list \<Rightarrow> ('b \<times> byte list) option)
     \<Rightarrow> 'a \<times> 'b \<Rightarrow> byte list \<Rightarrow> go_error option \<times> 'a \<times> 'b" where
  "dec_struct k1 f1 k2 f2 zero b =
     (case b of
        [] \<Rightarrow> (Some fragment, zero)
      | h # t \<Rightarrow>
          if 0x80 \<le> h \<and> h \<le> 0x8f then dec_fields (unat (h - 0x80)) k1 f1 k2 f2 t zero
          else (Some fragment, zero))"

definition demo_decode_request :: "byte list \<Rightarrow> go_error option \<times> string \<times> cell list" where
  "demo_decode_request = dec_struct ''query'' dec_str ''args'' (dec_array dec_cell) ([], [])"

definition demo_decode_query_response ::
  "byte list \<Rightarrow> go_error option \<times> string list \<times> cell list list" where
  "demo_decode_query_response =
     dec_struct ''columns'' (dec_array dec_str) ''data'' (dec_array (dec_array dec_cell)) ([], [])"

definition demo_decode_exec_response :: "byte list \<Rightarrow> go_error option \<times> int64 \<times> int64" where
  "demo_decode_exec_response =
     dec_struct ''rows_affected'' dec_int64 ''last_insert_id'' dec_int64 (0, 0)"

text \<open>\<^verbatim>\<open>strings.TrimSpace\<close>, \<^verbatim>\<open>strings.Fields\<close> and \<^verbatim>\<open>strings.ToUpper\<close> on ASCII text.\<close>

definition isSpace :: "char \<Rightarrow> bool" where
  "isSpace c = (c \<in> set [CHR 0x09, CHR 0x0A, CHR 0x0B, CHR 0x0C, CHR 0x0D, CHR '' ''])"

definition ascii_TrimSpace :: "string \<Rightarrow> string" where
  "ascii_TrimSpace s = rev (dropWhile isSpace (rev (dropWhile isSpace s)))"

fun fields_from :: "string \<Rightarrow> string \<Rightarrow> string list" where
  "fields_from w [] = (if w = [] then [] else [w])"
| "fields_from w (c # cs) =
     (if isSpace c then (if w = [] then fields_from [] cs else w # fields_from [] cs)
      else fields_from (w @ [c]) cs)"

definition ascii_Fields :: "string \<Rightarrow> string list" where
  "ascii_Fields s = fields_from [] s"

definition ascii_ToUpper :: "string \<Rightarrow> string" where
  "ascii_ToUpper s =
     map (\<lambda>c. if 97 \<le> (of_char c :: nat) \<and> (of_char c :: nat) \<le> 122
              then char_of ((of_char c :: nat) - 32) else c) s"

text \<open>
  The engine: its state is the number of rows of a table \<^verbatim>\<open>t\<close>. Any statement but
  \<^verbatim>\<open>SELECT 1\<close> and \<^verbatim>\<open>DELETE FROM t\<close> is an error.
\<close>

definition demo_Query :: "nat \<Rightarrow> string \<Rightarrow> cell list \<Rightarrow> (go_error + cell sqlRows) \<times> nat" where
  "demo_Query n q a =
     (if q = ''SELECT 1''
      then (Inr \<lparr>sql_columns = [''1''], sql_columns_err = None, sql_rows = [[CInt 1]]\<rparr>, n)
      else if q = ''DELETE FROM t''
      then (Inr \<lparr>sql_columns = [], sql_columns_err = None, sql_rows = []\<rparr>, 0)
      else (Inl (SqlError ''syntax error''), n))"

definition demo_Exec :: "nat \<Rightarrow> string \<Rightarrow> cell list \<Rightarrow> (go_error + sqlResult) \<times> nat" where
  "demo_Exec n q a =
     (if q = ''DELETE FROM t''
      then (Inr \<lparr>sql_RowsAffected = of_nat n, sql_LastInsertId = 0\<rparr>, 0)
      else if q = ''SELECT 1''
      then (Inr \<lparr>sql_RowsAffected = 0, sql_LastInsertId = 0\<rparr>, n)
      else (Inl (SqlError ''syntax error''), n))"

definition demo_env :: "(nat, cell) env" where
  "demo_env =
     \<lparr>mp_encode_request = demo_encode_request,
      mp_decode_request = demo_decode_request,
      mp_encode_query_response = demo_encode_query_response,
      mp_decode_query_response = demo_decode_query_response,
      mp_encode_exec_response = demo_encode_exec_response,
      mp_decode_exec_response = demo_decode_exec_response,
      strings_TrimSpace = ascii_TrimSpace,
      strings_Fields = ascii_Fields,
      strings_ToUpper = ascii_ToUpper,
      db_Query = demo_Query,
      db_Exec = demo_Exec,
      nil = CNull\<rparr>"

text \<open>A socket on which \<open>b\<close> arrives, and a server that starts on it with \<open>n\<close> rows.\<close>

definition socket :: "byte list \<Rightarrow> netconn" where
  "socket b = \<lparr>incoming = b, outgoing = [], broken = False, closed = False\<rparr>"

definition server_on :: "byte list \<Rightarrow> nat \<Rightarrow> (nat, cell) server" where
  "server_on b n = \<lparr>sock = socket b, db = n, events = []\<rparr>"

text \<open>The payloads the driver writes for three statements without arguments.\<close>

definition select_payload :: "byte list" where
  "select_payload =
     [0x82, 0xa5, 0x71, 0x75, 0x65, 0x72, 0x79,
      0xa8, 0x53, 0x45, 0x4c, 0x45, 0x43, 0x54, 0x20, 0x31,
      0xa4, 0x61, 0x72, 0x67, 0x73, 0x90]"

definition delete_payload :: "byte list" where
  "delete_payload =
     [0x82, 0xa5, 0x71, 0x75, 0x65, 0x72, 0x79,
      0xad, 0x44, 0x45, 0x4c, 0x45, 0x54, 0x45, 0x20, 0x46, 0x52, 0x4f, 0x4d, 0x20, 0x74,
      0xa4, 0x61, 0x72, 0x67, 0x73, 0x90]"

definition drop_payload :: "byte list" where
  "drop_payload =
     [0x82, 0xa5, 0x71, 0x75, 0x65, 0x72, 0x79,
      0xac, 0x44, 0x52, 0x4f, 0x50, 0x20, 0x54, 0x41, 0x42, 0x4c, 0x45, 0x20, 0x74,
      0xa4, 0x61, 0x72, 0x67, 0x73, 0x90]"

section \<open>Sequences of calls and the spec's opcode\<close>

text \<open>
  A caller of \<^verbatim>\<open>Rows.Next\<close>: one call for each buffer of \<open>ds\<close>, in order; the result
  lists the error and the buffer's contents after each call, and the cursor at the end.
\<close>

fun Next_all :: "'v Rows \<Rightarrow> 'v list list \<Rightarrow> (go_error option \<times> 'v list) list \<times> 'v Rows" where
  "Next_all r [] = ([], r)"
| "Next_all r (dest # ds) =
     (case Rows_Next r dest of
        (err, r', dest') \<Rightarrow>
          (case Next_all r' ds of (out, r'') \<Rightarrow> ((err, dest') # out, r'')))"

text \<open>The response of the spec's scenario A.\<close>

definition users_response :: "cell QueryResponse" where
  "users_response =
     \<lparr>Columns = [''id'', ''name''],
      Data = [[CInt 1, CText ''Alice''], [CInt 2, CText ''Bob'']]\<rparr>"

text \<open>
  The opcode the spec asks for, in the spec's words: the first byte of a request payload
  is \<open>0x01\<close> for a query and \<open>0x02\<close> for an exec, and any other value is unknown.
  Nothing in the source computes it.
\<close>

datatype opcode = OpQuery | OpExec

definition spec_opcode :: "byte \<Rightarrow> opcode option" where
  "spec_opcode b = (if b = 0x01 then Some OpQuery else if b = 0x02 then Some OpExec else None)"

section \<open>Frames\<close>

lemma Uint32_PutUint32: "Uint32 (PutUint32 v) = v"
proof (rule bit_word_eqI)
  fix n assume "n < LENGTH(32)"
  then consider "n < 8" | "8 \<le> n" "n < 16" | "16 \<le> n" "n < 24" | "24 \<le> n" "n < 32"
    by fastforce
  then show "bit (Uint32 (PutUint32 v)) n = bit v n"
    by cases (auto simp add: PutUint32_def bit_simps)
qed

lemma unat_of_nat_len: "n < 2 ^ 32 \<Longrightarrow> unat (of_nat n :: uint32) = n"
  by (simp add: unat_of_nat take_bit_nat_eq_self)

lemma length_PutUint32: "length (PutUint32 v) = 4"
  by (simp add: PutUint32_def)

lemma ReadFull_append:
  "incoming c = xs @ ys \<Longrightarrow> length xs = n \<Longrightarrow> ReadFull c n = (Inr xs, c\<lparr>incoming := ys\<rparr>)"
  by (simp add: ReadFull_def)

lemma readFrame_frame:
  assumes "incoming c = PutUint32 (of_nat (length p)) @ p @ rest" and "length p < 2 ^ 32"
  shows "readFrame c = (Inr p, [length p], c\<lparr>incoming := rest\<rparr>)"
proof -
  have 1: "ReadFull c 4 = (Inr (PutUint32 (of_nat (length p))), c\<lparr>incoming := p @ rest\<rparr>)"
    using assms(1) by (intro ReadFull_append) (simp_all add: length_PutUint32)
  have 2: "ReadFull (c\<lparr>incoming := p @ rest\<rparr>) (length p) = (Inr p, c\<lparr>incoming := rest\<rparr>)"
    using ReadFull_append [of "c\<lparr>incoming := p @ rest\<rparr>" p rest "length p"] by simp
  show ?thesis
    using assms(2) by (simp add: readFrame_def 1 2 Uint32_PutUint32 unat_of_nat_len Let_def)
qed

lemma sendRequest_ok:
  assumes "Marshal env request = Inr p" and "\<not> broken c"
  shows "sendRequest env c request =
           (None, c\<lparr>outgoing := outgoing c @ PutUint32 (of_nat (length p)) @ p\<rparr>)"
  using assms by (simp add: sendRequest_def Write_def Let_def)

lemma demo_Marshal_select:
  "Marshal demo_env (IQueryRequest \<lparr>Query = ''SELECT 1'', Args = []\<rparr>) = Inr select_payload"
  by code_simp

lemma length_select_payload: "length select_payload = 22"
  by (simp add: select_payload_def)

lemma PutUint32_22: "PutUint32 22 = [0, 0, 0, 22]"
  by (simp add: PutUint32_def)

text \<open>
  C5. Whatever maximum frame size is configured within the range of the length field, a
  payload \<open>p\<close> of at most that many bytes, the empty one included, written by
  \<^verbatim>\<open>sendRequest\<close> on a working connection goes out as the four bytes of its length,
  big-endian, followed by \<open>p\<close>; and reading one frame from a stream that starts with
  these bytes yields exactly \<open>p\<close> and leaves the rest of the stream.
\<close>

theorem frame_round_trip:
  assumes "Marshal env request = Inr p" and "length p \<le> maxFrame" and "maxFrame < 2 ^ 32"
      and "\<not> broken c"
  shows "sendRequest env c request =
           (None, c\<lparr>outgoing := outgoing c @ PutUint32 (of_nat (length p)) @ p\<rparr>)
         \<and> length (PutUint32 (of_nat (length p))) = 4
         \<and> unat (Uint32 (PutUint32 (of_nat (length p)))) = length p
         \<and> readFrame (peer\<lparr>incoming := PutUint32 (of_nat (length p)) @ p @ rest\<rparr>) =
             (Inr p, [length p], peer\<lparr>incoming := rest\<rparr>)"
proof -
  have len: "length p < 2 ^ 32"
    using assms(2,3) by simp
  have "readFrame (peer\<lparr>incoming := PutUint32 (of_nat (length p)) @ p @ rest\<rparr>) =
          (Inr p, [length p],
           peer\<lparr>incoming := PutUint32 (of_nat (length p)) @ p @ rest\<rparr>\<lparr>incoming := rest\<rparr>)"
    using len by (intro readFrame_frame) simp_all
  then show ?thesis
    using assms(1,4) len
    by (simp add: sendRequest_ok length_PutUint32 Uint32_PutUint32 unat_of_nat_len)
qed

theorem frame_round_trip_witness:
  "Marshal demo_env (IQueryRequest \<lparr>Query = ''SELECT 1'', Args = []\<rparr>) = Inr select_payload
   \<and> length select_payload \<le> 64 * 1024 * 1024
   \<and> (64 * 1024 * 1024 :: nat) < 2 ^ 32
   \<and> \<not> broken (socket [])
   \<and> sendRequest demo_env (socket []) (IQueryRequest \<lparr>Query = ''SELECT 1'', Args = []\<rparr>) =
       (None, socket [] \<lparr>outgoing := [0, 0, 0, 22] @ select_payload\<rparr>)
   \<and> readFrame (socket ([0, 0, 0, 22] @ select_payload)) = (Inr select_payload, [22], socket [])
   \<and> Marshal (demo_env\<lparr>mp_encode_request := \<lambda>q a. Inr []\<rparr>)
        (IQueryRequest \<lparr>Query = ''SELECT 1'', Args = []\<rparr>) = Inr []
   \<and> sendRequest (demo_env\<lparr>mp_encode_request := \<lambda>q a. Inr []\<rparr>) (socket [])
        (IQueryRequest \<lparr>Query = ''SELECT 1'', Args = []\<rparr>) =
       (None, socket [] \<lparr>outgoing := [0, 0, 0, 0]\<rparr>)
   \<and> readFrame (socket [0, 0, 0, 0]) = (Inr [], [0], socket [])"
proof -
  let ?r = "IQueryRequest \<lparr>Query = ''SELECT 1'', Args = ([] :: cell list)\<rparr>"
  let ?e = "demo_env\<lparr>mp_encode_request := \<lambda>q a. Inr []\<rparr>"
  have b: "\<not> broken (socket [])"
    by (simp add: socket_def)
  have l: "length select_payload \<le> 64 * 1024 * 1024"
    by (simp add: length_select_payload)
  have m: "Marshal ?e ?r = Inr []"
    by (simp add: Marshal_def)
  have z: "length ([] :: byte list) \<le> 64 * 1024 * 1024"
    by simp
  have x: "(64 * 1024 * 1024 :: nat) < 2 ^ 32"
    by simp
  have p0: "PutUint32 0 = [0, 0, 0, 0]"
    by (simp add: PutUint32_def)
  show ?thesis
    using frame_round_trip [OF demo_Marshal_select l x b, where peer = "socket []" and rest = "[]"]
      frame_round_trip [OF m z x b, where peer = "socket []" and rest = "[]"]
    by (simp add: length_select_payload PutUint32_22 p0 socket_def demo_Marshal_select m)
qed

section \<open>The driver\<close>

text \<open>
  C6. \<^verbatim>\<open>Begin\<close> never returns a transaction and always returns the error
  \<^verbatim>\<open>transactions are not supported\<close>, which is none of the errors of the socket, of
  msgpack or of the engine; the connection, and so what was sent and what is still to be
  received on its socket, is as before the call.
\<close>

theorem Begin_unsupported:
  "fst (fst (Begin c)) = None
   \<and> snd (fst (Begin c)) = Some (Errorf ''transactions are not supported'')
   \<and> snd (Begin c) = c
   \<and> outgoing (conn (snd (Begin c))) = outgoing (conn c)
   \<and> incoming (conn (snd (Begin c))) = incoming (conn c)
   \<and> Errorf ''transactions are not supported'' \<notin> {EOF, ErrUnexpectedEOF, NetError, MsgpackError m, SqlError m'}"
  by (simp add: Begin_def)

lemma copy_same_length: "length dest = length src \<Longrightarrow> copy dest src = src"
  by (simp add: copy_def)

lemma Next_all_from:
  "snd (Next_all r ds) =
     r\<lparr>index := (if index r \<le> length (data r)
                  then min (index r + length ds) (length (data r)) else index r)\<rparr>
   \<and> length (fst (Next_all r ds)) = length ds
   \<and> (\<forall>k < length ds. fst (Next_all r ds) ! k =
        (if index r + k < length (data r)
         then (None, copy (ds ! k) (data r ! (index r + k)))
         else (Some EOF, ds ! k)))"
proof (induction ds arbitrary: r)
  case Nil
  then show ?case by simp
next
  case (Cons dest ds)
  show ?case
  proof (cases "index r < length (data r)")
    case True
    have step: "Rows_Next r dest =
                  (None, r\<lparr>index := index r + 1\<rparr>, copy dest (data r ! index r))"
      using True by (simp add: Rows_Next_def)
    from Cons.IH [of "r\<lparr>index := index r + 1\<rparr>"] True step show ?thesis
      by (auto simp add: nth_Cons split: prod.splits nat.splits)
  next
    case False
    have step: "Rows_Next r dest = (Some EOF, r, dest)"
      using False by (simp add: Rows_Next_def)
    from Cons.IH [of r] False step show ?thesis
      by (auto simp add: nth_Cons split: prod.splits nat.splits)
  qed
qed

text \<open>
  C7. On a cursor built from a query response, call number \<open>k\<close> (from 0) copies row
  \<open>k\<close> of the response into its buffer and returns no error while rows are left, and
  the buffer then holds exactly that row when it is as wide as the row; every later call
  returns \<^verbatim>\<open>io.EOF\<close> and leaves its buffer alone; after the calls the cursor stands at
  the number of rows returned; and a call on a cursor at or past the last row returns
  \<^verbatim>\<open>io.EOF\<close> and changes neither the cursor nor the buffer.
\<close>

theorem cursor_next:
  assumes "k < length ds"
  shows "fst (Next_all \<lparr>columns = Columns response, data = Data response, index = 0\<rparr> ds) ! k =
           (if k < length (Data response) then (None, copy (ds ! k) (Data response ! k))
            else (Some EOF, ds ! k))
         \<and> (length (ds ! k) = length (Data response ! k) \<longrightarrow>
              copy (ds ! k) (Data response ! k) = Data response ! k)
         \<and> snd (Next_all \<lparr>columns = Columns response, data = Data response, index = 0\<rparr> ds) =
             \<lparr>columns = Columns response, data = Data response,
              index = min (length ds) (length (Data response))\<rparr>
         \<and> Rows_Next \<lparr>columns = Columns response, data = Data response,
                      index = length (Data response) + n\<rparr> dest =
             (Some EOF,
              \<lparr>columns = Columns response, data = Data response,
               index = length (Data response) + n\<rparr>, dest)"
  using Next_all_from [of "\<lparr>columns = Columns response, data = Data response, index = 0\<rparr>" ds]
    assms
  by (simp add: Rows_Next_def copy_same_length)

theorem cursor_next_witness:
  "fst (Next_all \<lparr>columns = [''id'', ''name''],
                   data = [[CInt 1, CText ''Alice''], [CInt 2, CText ''Bob'']], index = 0\<rparr>
        [[CNull, CNull], [CNull, CNull], [CNull, CNull], [CNull, CNull]]) =
       [(None, [CInt 1, CText ''Alice'']), (None, [CInt 2, CText ''Bob'']),
        (Some EOF, [CNull, CNull]), (Some EOF, [CNull, CNull])]
   \<and> snd (Next_all \<lparr>columns = [''id'', ''name''],
                     data = [[CInt 1, CText ''Alice''], [CInt 2, CText ''Bob'']], index = 0\<rparr>
        [[CNull, CNull], [CNull, CNull], [CNull, CNull], [CNull, CNull]]) =
       \<lparr>columns = [''id'', ''name''],
        data = [[CInt 1, CText ''Alice''], [CInt 2, CText ''Bob'']], index = 2\<rparr>"
proof -
  let ?ds = "[[CNull, CNull], [CNull, CNull], [CNull, CNull], [CNull, CNull]]"
  let ?r = "\<lparr>columns = [''id'', ''name''],
             data = [[CInt 1, CText ''Alice''], [CInt 2, CText ''Bob'']], index = 0\<rparr>"
  have len: "length (fst (Next_all ?r ?ds)) = 4"
    by (simp add: Rows_Next_def)
  have k: "(0::nat) < length ?ds" "(1::nat) < length ?ds" "(2::nat) < length ?ds"
    "(3::nat) < length ?ds"
    by simp_all
  have eq: "xs = [xs ! 0, xs ! 1, xs ! 2, xs ! 3]" if "length xs = 4" for xs :: "'a list"
    using that
    by (auto simp add: list_eq_iff_nth_eq nth_Cons numeral_2_eq_2 numeral_3_eq_3
        split: nat.splits)
  show ?thesis
    using cursor_next [OF k(1), where response = users_response and n = 0 and dest = "[]"]
      cursor_next [OF k(2), where response = users_response and n = 0 and dest = "[]"]
      cursor_next [OF k(3), where response = users_response and n = 0 and dest = "[]"]
      cursor_next [OF k(4), where response = users_response and n = 0 and dest = "[]"]
      eq [OF len]
    by (simp add: users_response_def)
qed

section \<open>The server\<close>

subsection \<open>One turn of the loop on a complete frame\<close>

lemma turn_proxy_frame:
  assumes "incoming (sock s) = PutUint32 (of_nat (length d)) @ d @ rest" and "length d < 2 ^ 32"
  shows "turn_proxy env s =
           (case (if isQuery_proxy env d
                  then handleQuery_proxy env
                         (s\<lparr>sock := (sock s)\<lparr>incoming := rest\<rparr>,
                            events := events s @ [Alloc (length d)]\<rparr>) d
                  else handleExec_proxy env
                         (s\<lparr>sock := (sock s)\<lparr>incoming := rest\<rparr>,
                            events := events s @ [Alloc (length d)]\<rparr>) d) of
              (Some p, s2) \<Rightarrow> (Some (Crash p), s2)
            | (None, s2) \<Rightarrow> (None, s2))"
  by (simp add: turn_proxy_def readFrame_frame [OF assms])

lemma turn_svc_frame:
  assumes "incoming (sock s) = PutUint32 (of_nat (length d)) @ d @ rest" and "length d < 2 ^ 32"
  shows "turn_svc env s =
           (case isQuery_svc env d of
              Inl p \<Rightarrow> (Some (Crash p), s\<lparr>sock := (sock s)\<lparr>incoming := rest\<rparr>,
                                          events := events s @ [Alloc (length d)]\<rparr>)
            | Inr True \<Rightarrow>
                (case handleQuery_svc env
                        (s\<lparr>sock := (sock s)\<lparr>incoming := rest\<rparr>,
                           events := events s @ [Alloc (length d)]\<rparr>) d of
                   (Some err, s2) \<Rightarrow> (Some (HandlerError err), s2)
                 | (None, s2) \<Rightarrow> (None, s2))
            | Inr False \<Rightarrow>
                (case handleExec_svc env
                        (s\<lparr>sock := (sock s)\<lparr>incoming := rest\<rparr>,
                           events := events s @ [Alloc (length d)]\<rparr>) d of
                   (Some err, s2) \<Rightarrow> (Some (HandlerError err), s2)
                 | (None, s2) \<Rightarrow> (None, s2)))"
  by (simp add: turn_svc_def readFrame_frame [OF assms] Let_def split: sum.splits bool.splits)

lemma isQuery_proxy_iff:
  "mp_decode_request env d = (err, q, a) \<Longrightarrow> isQuery_proxy env d \<longleftrightarrow> err = None"
  by (simp add: isQuery_proxy_def Unmarshal_QueryRequest_def)

lemma handleQuery_proxy_fail:
  assumes "mp_decode_request env d = (err, q, a)" and "fst (db_Query env (db s) q a) = Inl e"
  shows "handleQuery_proxy env s d =
           (Some NilDereference,
            s\<lparr>db := snd (db_Query env (db s) q a),
              events := events s @ [LogQuery q a, DbQuery q a]\<rparr>)"
  using assms
  by (cases "db_Query env (db s) q a")
     (simp add: handleQuery_proxy_def Unmarshal_QueryRequest_def deref_def Let_def)

lemma handleExec_proxy_fail:
  assumes "mp_decode_request env d = (err, q, a)" and "fst (db_Exec env (db s) q a) = Inl e"
  shows "handleExec_proxy env s d =
           (Some NilDereference,
            s\<lparr>db := snd (db_Exec env (db s) q a),
              events := events s @ [LogExec q a, DbExec q a]\<rparr>)"
  using assms
  by (cases "db_Exec env (db s) q a")
     (simp add: handleExec_proxy_def Unmarshal_ExecRequest_def deref_def Let_def)

lemma handleQuery_proxy_events:
  assumes "mp_decode_request env d = (err, q, a)"
  shows "events (snd (handleQuery_proxy env s d)) = events s @ [LogQuery q a, DbQuery q a]"
    and "db (snd (handleQuery_proxy env s d)) = snd (db_Query env (db s) q a)"
    and "fst (handleQuery_proxy env s d) \<in> {None, Some NilDereference}"
  using assms
  by (simp_all add: handleQuery_proxy_def Unmarshal_QueryRequest_def deref_def Let_def
      split: prod.splits sum.splits)

lemma handleExec_proxy_events:
  assumes "mp_decode_request env d = (err, q, a)"
  shows "events (snd (handleExec_proxy env s d)) = events s @ [LogExec q a, DbExec q a]"
    and "db (snd (handleExec_proxy env s d)) = snd (db_Exec env (db s) q a)"
    and "fst (handleExec_proxy env s d) \<in> {None, Some NilDereference}"
  using assms
  by (simp_all add: handleExec_proxy_def Unmarshal_ExecRequest_def deref_def Let_def
      split: prod.splits sum.splits)

lemma turn_proxy_events:
  assumes "incoming (sock s) = PutUint32 (of_nat (length d)) @ d @ rest" and "length d < 2 ^ 32"
      and "mp_decode_request env d = (err, q, a)"
  shows "events (snd (turn_proxy env s)) =
           events s @ Alloc (length d) #
             (if err = None then [LogQuery q a, DbQuery q a] else [LogExec q a, DbExec q a])"
    and "db (snd (turn_proxy env s)) =
           (if err = None then snd (db_Query env (db s) q a) else snd (db_Exec env (db s) q a))"
    and "fst (turn_proxy env s) \<in> {None, Some (Crash NilDereference)}"
proof -
  let ?s1 = "s\<lparr>sock := (sock s)\<lparr>incoming := rest\<rparr>, events := events s @ [Alloc (length d)]\<rparr>"
  let ?h = "if isQuery_proxy env d then handleQuery_proxy env ?s1 d
            else handleExec_proxy env ?s1 d"
  have t: "turn_proxy env s =
             (case ?h of (Some p, s2) \<Rightarrow> (Some (Crash p), s2) | (None, s2) \<Rightarrow> (None, s2))"
    by (rule turn_proxy_frame [OF assms(1,2)])
  have s: "snd (turn_proxy env s) = snd ?h"
    unfolding t by (simp split: prod.splits option.splits)
  have f: "fst (turn_proxy env s) = map_option Crash (fst ?h)"
    unfolding t by (simp split: prod.splits option.splits)
  show "events (snd (turn_proxy env s)) =
           events s @ Alloc (length d) #
             (if err = None then [LogQuery q a, DbQuery q a] else [LogExec q a, DbExec q a])"
    unfolding s
    by (simp add: isQuery_proxy_iff [OF assms(3)] handleQuery_proxy_events(1) [OF assms(3)]
        handleExec_proxy_events(1) [OF assms(3)])
  show "db (snd (turn_proxy env s)) =
           (if err = None then snd (db_Query env (db s) q a) else snd (db_Exec env (db s) q a))"
    unfolding s
    by (simp add: isQuery_proxy_iff [OF assms(3)] handleQuery_proxy_events(2) [OF assms(3)]
        handleExec_proxy_events(2) [OF assms(3)])
  show "fst (turn_proxy env s) \<in> {None, Some (Crash NilDereference)}"
    unfolding f
    using handleQuery_proxy_events(3) [OF assms(3), of ?s1]
      handleExec_proxy_events(3) [OF assms(3), of ?s1]
    by auto
qed


lemma handleConnection_proxy_stop:
  "turn_proxy env s = (Some st, s') \<Longrightarrow>
     handleConnection_proxy env s = (st, s'\<lparr>sock := Close (sock s')\<rparr>)"
  by (subst handleConnection_proxy.simps) simp

lemma handleConnection_svc_stop:
  "turn_svc env s = (Some st, s') \<Longrightarrow>
     handleConnection_svc env s = (st, s'\<lparr>sock := Close (sock s')\<rparr>)"
  by (subst handleConnection_svc.simps) simp

lemma isQuery_svc_fail:
  "mp_decode_request env d = (Some e, q, a) \<Longrightarrow> isQuery_svc env d = Inr False"
  by (simp add: isQuery_svc_def Unmarshal_QueryRequest_def)

lemma isQuery_svc_word:
  "mp_decode_request env d = (None, q, a) \<Longrightarrow>
   strings_Fields env (strings_TrimSpace env q) = w # ws \<Longrightarrow>
   isQuery_svc env d = Inr (strings_ToUpper env w = ''SELECT'')"
  by (simp add: isQuery_svc_def Unmarshal_QueryRequest_def)

lemma handleExec_svc_undecodable:
  "mp_decode_request env d = (Some e, q, a) \<Longrightarrow> handleExec_svc env s d = (Some e, s)"
  by (simp add: handleExec_svc_def Unmarshal_ExecRequest_def)

lemma handleQuery_svc_events:
  assumes "mp_decode_request env d = (None, q, a)"
  shows "events (snd (handleQuery_svc env s d)) = events s @ [LogQuery q a, DbQuery q a]"
  using assms
  by (simp add: handleQuery_svc_def Unmarshal_QueryRequest_def Let_def
      split: prod.splits sum.splits option.splits)

lemma handleExec_svc_events:
  assumes "mp_decode_request env d = (None, q, a)"
  shows "events (snd (handleExec_svc env s d)) = events s @ [LogExec q a, DbExec q a]"
  using assms
  by (simp add: handleExec_svc_def Unmarshal_ExecRequest_def Let_def
      split: prod.splits sum.splits option.splits)

lemma turn_svc_events:
  assumes "incoming (sock s) = PutUint32 (of_nat (length d)) @ d @ rest" and "length d < 2 ^ 32"
      and "mp_decode_request env d = (None, q, a)"
      and "strings_Fields env (strings_TrimSpace env q) = w # ws"
  shows "events (snd (turn_svc env s)) =
           events s @ Alloc (length d) #
             (if strings_ToUpper env w = ''SELECT'' then [LogQuery q a, DbQuery q a]
              else [LogExec q a, DbExec q a])"
proof -
  let ?s1 = "s\<lparr>sock := (sock s)\<lparr>incoming := rest\<rparr>, events := events s @ [Alloc (length d)]\<rparr>"
  show ?thesis
  proof (cases "strings_ToUpper env w = ''SELECT''")
    case True
    then have "snd (turn_svc env s) = snd (handleQuery_svc env ?s1 d)"
      by (simp add: turn_svc_frame [OF assms(1,2)] isQuery_svc_word [OF assms(3,4)]
          split: prod.splits option.splits)
    with True show ?thesis
      by (simp add: handleQuery_svc_events [OF assms(3)])
  next
    case False
    then have "snd (turn_svc env s) = snd (handleExec_svc env ?s1 d)"
      by (simp add: turn_svc_frame [OF assms(1,2)] isQuery_svc_word [OF assms(3,4)]
          split: prod.splits option.splits)
    with False show ?thesis
      by (simp add: handleExec_svc_events [OF assms(3)])
  qed
qed

lemma turn_svc_undecodable:
  assumes "incoming (sock s) = PutUint32 (of_nat (length d)) @ d @ rest" and "length d < 2 ^ 32"
      and "mp_decode_request env d = (Some e, q, a)"
  shows "turn_svc env s =
           (Some (HandlerError e),
            s\<lparr>sock := (sock s)\<lparr>incoming := rest\<rparr>, events := events s @ [Alloc (length d)]\<rparr>)"
  by (simp add: turn_svc_frame [OF assms(1,2)] isQuery_svc_fail [OF assms(3)]
      handleExec_svc_undecodable [OF assms(3)])

lemma handleQuery_svc_fail:
  assumes "mp_decode_request env d = (None, q, a)" and "fst (db_Query env (db s) q a) = Inl e"
  shows "handleQuery_svc env s d =
           (Some e, s\<lparr>db := snd (db_Query env (db s) q a),
                       events := events s @ [LogQuery q a, DbQuery q a]\<rparr>)"
  using assms
  by (cases "db_Query env (db s) q a")
     (simp add: handleQuery_svc_def Unmarshal_QueryRequest_def Let_def)

lemma handleExec_svc_fail:
  assumes "mp_decode_request env d = (None, q, a)" and "fst (db_Exec env (db s) q a) = Inl e"
  shows "handleExec_svc env s d =
           (Some e, s\<lparr>db := snd (db_Exec env (db s) q a),
                       events := events s @ [LogExec q a, DbExec q a]\<rparr>)"
  using assms
  by (cases "db_Exec env (db s) q a")
     (simp add: handleExec_svc_def Unmarshal_ExecRequest_def Let_def)

lemma readFrame_short:
  assumes "incoming c = h @ body" and "length h = 4" and "length body < unat (Uint32 h)"
  shows "readFrame c =
           (Inl (if body = [] then EOF else ErrUnexpectedEOF), [unat (Uint32 h)],
            c\<lparr>incoming := []\<rparr>)"
proof -
  have 1: "ReadFull c 4 = (Inr h, c\<lparr>incoming := body\<rparr>)"
    using assms(1,2) by (intro ReadFull_append) simp_all
  have 2: "ReadFull (c\<lparr>incoming := body\<rparr>) (unat (Uint32 h)) =
             (Inl (if body = [] then EOF else ErrUnexpectedEOF), c\<lparr>incoming := []\<rparr>)"
    using assms(3) by (simp add: ReadFull_def)
  show ?thesis
    by (simp add: readFrame_def 1 2 Let_def)
qed

lemma readFrame_long:
  assumes "incoming c = h @ body" and "length h = 4" and "unat (Uint32 h) \<le> length body"
  shows "readFrame c =
           (Inr (take (unat (Uint32 h)) body), [unat (Uint32 h)],
            c\<lparr>incoming := drop (unat (Uint32 h)) body\<rparr>)"
proof -
  have 1: "ReadFull c 4 = (Inr h, c\<lparr>incoming := body\<rparr>)"
    using assms(1,2) by (intro ReadFull_append) simp_all
  have 2: "ReadFull (c\<lparr>incoming := body\<rparr>) (unat (Uint32 h)) =
             (Inr (take (unat (Uint32 h)) body), c\<lparr>incoming := drop (unat (Uint32 h)) body\<rparr>)"
    using assms(3) by (simp add: ReadFull_def)
  show ?thesis
    by (simp add: readFrame_def 1 2 Let_def)
qed

lemma turn_short:
  assumes "incoming (sock s) = h @ body" and "length h = 4" and "length body < unat (Uint32 h)"
  shows "turn_proxy env s =
           (Some (ReadError (if body = [] then EOF else ErrUnexpectedEOF)),
            s\<lparr>sock := (sock s)\<lparr>incoming := []\<rparr>,
              events := events s @ [Alloc (unat (Uint32 h))]\<rparr>)"
    and "turn_svc env s =
           (Some (ReadError (if body = [] then EOF else ErrUnexpectedEOF)),
            s\<lparr>sock := (sock s)\<lparr>incoming := []\<rparr>,
              events := events s @ [Alloc (unat (Uint32 h))]\<rparr>)"
  by (simp_all add: turn_proxy_def turn_svc_def readFrame_short [OF assms])

lemma sendRequest_exec_as_query:
  "sendRequest env c (IExecRequest \<lparr>ExecQuery = q, ExecArgs = a\<rparr>) =
     sendRequest env c (IQueryRequest \<lparr>Query = q, Args = a\<rparr>)"
  by (simp add: sendRequest_def Marshal_def)

subsection \<open>The instance on concrete requests\<close>

lemma demo_decode_drop:
  "mp_decode_request demo_env drop_payload = (None, ''DROP TABLE t'', [])"
  by code_simp

lemma demo_decode_select:
  "mp_decode_request demo_env select_payload = (None, ''SELECT 1'', [])"
  by code_simp

lemma demo_decode_delete:
  "mp_decode_request demo_env delete_payload = (None, ''DELETE FROM t'', [])"
  by code_simp

lemma demo_decode_one:
  "mp_decode_request demo_env [1] = (Some fragment, [], [])"
  by code_simp

lemma length_drop_payload: "length drop_payload = 26"
  by (simp add: drop_payload_def)

lemma length_delete_payload: "length delete_payload = 27"
  by (simp add: delete_payload_def)

lemma PutUint32_26: "PutUint32 26 = [0, 0, 0, 26]"
  by (simp add: PutUint32_def)

lemma PutUint32_27: "PutUint32 27 = [0, 0, 0, 27]"
  by (simp add: PutUint32_def)

lemma PutUint32_1: "PutUint32 1 = [0, 0, 0, 1]"
  by (simp add: PutUint32_def)

lemma demo_Query_drop: "db_Query demo_env n ''DROP TABLE t'' a = (Inl (SqlError ''syntax error''), n)"
  by (simp add: demo_env_def demo_Query_def)

lemma demo_Exec_drop: "db_Exec demo_env n ''DROP TABLE t'' a = (Inl (SqlError ''syntax error''), n)"
  by (simp add: demo_env_def demo_Exec_def)

lemma demo_Exec_empty: "db_Exec demo_env n [] a = (Inl (SqlError ''syntax error''), n)"
  by (simp add: demo_env_def demo_Exec_def)

lemma demo_encode_delete:
  "mp_encode_request demo_env ''DELETE FROM t'' [] = Inr delete_payload"
  by code_simp

lemma demo_Query_delete:
  "db_Query demo_env n ''DELETE FROM t'' a =
     (Inr \<lparr>sql_columns = [], sql_columns_err = None, sql_rows = []\<rparr>, 0)"
  by (simp add: demo_env_def demo_Query_def)

lemma demo_Fields_select:
  "strings_Fields demo_env (strings_TrimSpace demo_env ''SELECT 1'') = [''SELECT'', ''1'']"
  by code_simp

lemma demo_Fields_delete:
  "strings_Fields demo_env (strings_TrimSpace demo_env ''DELETE FROM t'') =
     [''DELETE'', ''FROM'', ''t'']"
  by code_simp

lemma demo_Fields_drop:
  "strings_Fields demo_env (strings_TrimSpace demo_env ''DROP TABLE t'') =
     [''DROP'', ''TABLE'', ''t'']"
  by code_simp

lemma demo_ToUpper:
  "strings_ToUpper demo_env ''SELECT'' = ''SELECT''"
  "strings_ToUpper demo_env ''DELETE'' = ''DELETE''"
  "strings_ToUpper demo_env ''DROP'' = ''DROP''"
  by code_simp+

subsection \<open>Classification\<close>

text \<open>
  C1, as the spec states it, fails on the code. The payload the driver writes for
  \<^verbatim>\<open>SELECT 1\<close> starts with \<open>0x82\<close>, which is no request opcode, and both entry points
  serve it as a query instead of rejecting it; the payload that consists of the byte
  \<open>0x01\<close>, the opcode of a query, is handed to \<^verbatim>\<open>handleExec\<close> by
  \<^verbatim>\<open>src/cmd/proxy/main.go\<close>; and the payloads of \<^verbatim>\<open>SELECT 1\<close> and
  \<^verbatim>\<open>DELETE FROM t\<close>, which start with the same byte, are routed differently by
  \<^verbatim>\<open>src/unnamed/part_000\<close>.
\<close>

theorem opcode_routing_counterexample:
  "spec_opcode (hd select_payload) = None
   \<and> fst (turn_proxy demo_env (server_on ([0, 0, 0, 22] @ select_payload) 3)) = None
   \<and> events (snd (turn_proxy demo_env (server_on ([0, 0, 0, 22] @ select_payload) 3))) =
       [Alloc 22, LogQuery ''SELECT 1'' [], DbQuery ''SELECT 1'' []]
   \<and> fst (turn_svc demo_env (server_on ([0, 0, 0, 22] @ select_payload) 3)) = None
   \<and> events (snd (turn_svc demo_env (server_on ([0, 0, 0, 22] @ select_payload) 3))) =
       [Alloc 22, LogQuery ''SELECT 1'' [], DbQuery ''SELECT 1'' []]
   \<and> spec_opcode (hd [1]) = Some OpQuery
   \<and> events (snd (turn_proxy demo_env (server_on [0, 0, 0, 1, 1] 3))) =
       [Alloc 1, LogExec [] [], DbExec [] []]
   \<and> hd delete_payload = hd select_payload
   \<and> events (snd (turn_svc demo_env (server_on ([0, 0, 0, 27] @ delete_payload) 3))) =
       [Alloc 27, LogExec ''DELETE FROM t'' [], DbExec ''DELETE FROM t'' []]"
  by code_simp

text \<open>
  C1, amended. The payload of a frame that was read in full is classified by decoding it
  as a \<^verbatim>\<open>QueryRequest\<close>; no payload is rejected for its first byte.
  \<^verbatim>\<open>src/cmd/proxy/main.go\<close> hands it to \<^verbatim>\<open>handleQuery\<close> (and \<^verbatim>\<open>db.Query\<close>) when
  decoding succeeds and to \<^verbatim>\<open>handleExec\<close> (and \<^verbatim>\<open>db.Exec\<close>) when it fails, and the
  turn ends in no protocol error. \<^verbatim>\<open>src/unnamed/part_000\<close>, when decoding succeeds and
  the trimmed query has a first field, hands it to \<^verbatim>\<open>handleQuery\<close> when that field in
  upper case is \<^verbatim>\<open>SELECT\<close> and to \<^verbatim>\<open>handleExec\<close> otherwise; when decoding fails,
  its loop ends with the decoding error.
\<close>

theorem routing_by_decoding:
  assumes "incoming (sock s) = PutUint32 (of_nat (length d)) @ d @ rest"
      and "length d < 2 ^ 32"
      and "mp_decode_request env d = (err, q, a)"
  shows "fst (turn_proxy env s) \<in> {None, Some (Crash NilDereference)}
         \<and> events (snd (turn_proxy env s)) =
             events s @ Alloc (length d) #
               (if err = None then [LogQuery q a, DbQuery q a] else [LogExec q a, DbExec q a])
         \<and> (err = None \<and> strings_Fields env (strings_TrimSpace env q) = w # ws \<longrightarrow>
              events (snd (turn_svc env s)) =
                events s @ Alloc (length d) #
                  (if strings_ToUpper env w = ''SELECT'' then [LogQuery q a, DbQuery q a]
                   else [LogExec q a, DbExec q a]))
         \<and> (err = Some e \<longrightarrow>
              turn_svc env s =
                (Some (HandlerError e),
                 s\<lparr>sock := (sock s)\<lparr>incoming := rest\<rparr>,
                   events := events s @ [Alloc (length d)]\<rparr>))"
  using turn_proxy_events(1,3) [OF assms] turn_svc_events [OF assms(1,2)]
    turn_svc_undecodable [OF assms(1,2)] assms(3)
  by auto

theorem routing_by_decoding_witness:
  "mp_decode_request demo_env select_payload = (None, ''SELECT 1'', [])
   \<and> length select_payload < 2 ^ 32
   \<and> strings_Fields demo_env (strings_TrimSpace demo_env ''SELECT 1'') = [''SELECT'', ''1'']
   \<and> events (snd (turn_proxy demo_env (server_on ([0, 0, 0, 22] @ select_payload) 3))) =
       [Alloc 22, LogQuery ''SELECT 1'' [], DbQuery ''SELECT 1'' []]
   \<and> events (snd (turn_svc demo_env (server_on ([0, 0, 0, 22] @ select_payload) 3))) =
       [Alloc 22, LogQuery ''SELECT 1'' [], DbQuery ''SELECT 1'' []]
   \<and> mp_decode_request demo_env delete_payload = (None, ''DELETE FROM t'', [])
   \<and> strings_Fields demo_env (strings_TrimSpace demo_env ''DELETE FROM t'') =
       [''DELETE'', ''FROM'', ''t'']
   \<and> events (snd (turn_proxy demo_env (server_on ([0, 0, 0, 27] @ delete_payload) 3))) =
       [Alloc 27, LogQuery ''DELETE FROM t'' [], DbQuery ''DELETE FROM t'' []]
   \<and> events (snd (turn_svc demo_env (server_on ([0, 0, 0, 27] @ delete_payload) 3))) =
       [Alloc 27, LogExec ''DELETE FROM t'' [], DbExec ''DELETE FROM t'' []]
   \<and> mp_decode_request demo_env [1] = (Some fragment, [], [])
   \<and> events (snd (turn_proxy demo_env (server_on [0, 0, 0, 1, 1] 3))) =
       [Alloc 1, LogExec [] [], DbExec [] []]
   \<and> turn_svc demo_env (server_on [0, 0, 0, 1, 1] 3) =
       (Some (HandlerError fragment), \<lparr>sock = socket [], db = 3, events = [Alloc 1]\<rparr>)"
  using routing_by_decoding [OF _ _ demo_decode_select,
      where s = "server_on ([0, 0, 0, 22] @ select_payload) 3" and rest = "[]"
        and w = "''SELECT''" and ws = "[''1'']" and e = fragment]
    routing_by_decoding [OF _ _ demo_decode_delete,
      where s = "server_on ([0, 0, 0, 27] @ delete_payload) 3" and rest = "[]"
        and w = "''DELETE''" and ws = "[''FROM'', ''t'']" and e = fragment]
    routing_by_decoding [OF _ _ demo_decode_one,
      where s = "server_on [0, 0, 0, 1, 1] 3" and rest = "[]"
        and w = "''DELETE''" and ws = "[''FROM'', ''t'']" and e = fragment]
  by (simp add: demo_decode_select demo_decode_delete demo_decode_one demo_Fields_select
      demo_Fields_delete demo_ToUpper server_on_def socket_def length_select_payload
      length_delete_payload PutUint32_22 PutUint32_27 PutUint32_1)

text \<open>
  C9. In \<^verbatim>\<open>src/cmd/proxy/main.go\<close> a payload is a query exactly when it decodes as a
  \<^verbatim>\<open>QueryRequest\<close>: the turn then prints the line of \<^verbatim>\<open>handleQuery\<close> and calls
  \<^verbatim>\<open>db.Query\<close>, and it prints the line of \<^verbatim>\<open>handleExec\<close> and calls \<^verbatim>\<open>db.Exec\<close>
  only when decoding fails. The driver writes an \<^verbatim>\<open>ExecRequest\<close> as the very bytes of
  the \<^verbatim>\<open>QueryRequest\<close> with the same query and arguments, so an exec request that
  decodes is run through \<^verbatim>\<open>db.Query\<close>.
\<close>

theorem exec_requests_run_as_queries:
  assumes "incoming (sock s) = PutUint32 (of_nat (length d)) @ d @ rest"
      and "length d < 2 ^ 32"
      and "mp_decode_request env d = (err, q', a')"
  shows "(isQuery_proxy env d \<longleftrightarrow> err = None)
         \<and> events (snd (turn_proxy env s)) =
             events s @ Alloc (length d) #
               (if err = None then [LogQuery q' a', DbQuery q' a']
                else [LogExec q' a', DbExec q' a'])
         \<and> db (snd (turn_proxy env s)) =
             (if err = None then snd (db_Query env (db s) q' a')
              else snd (db_Exec env (db s) q' a'))
         \<and> sendRequest env c (IExecRequest \<lparr>ExecQuery = q, ExecArgs = a\<rparr>) =
             sendRequest env c (IQueryRequest \<lparr>Query = q, Args = a\<rparr>)
         \<and> (mp_encode_request env q a = Inr d \<and> \<not> broken c \<longrightarrow>
              sendRequest env c (IExecRequest \<lparr>ExecQuery = q, ExecArgs = a\<rparr>) =
                (None, c\<lparr>outgoing := outgoing c @ PutUint32 (of_nat (length d)) @ d\<rparr>))"
  using turn_proxy_events(1,2) [OF assms] isQuery_proxy_iff [OF assms(3)]
  by (simp add: sendRequest_exec_as_query sendRequest_ok Marshal_def)

theorem exec_requests_run_as_queries_witness:
  "mp_encode_request demo_env ''DELETE FROM t'' [] = Inr delete_payload
   \<and> sendRequest demo_env (socket [])
        (IExecRequest \<lparr>ExecQuery = ''DELETE FROM t'', ExecArgs = []\<rparr>) =
       (None, socket [] \<lparr>outgoing := [0, 0, 0, 27] @ delete_payload\<rparr>)
   \<and> length delete_payload < 2 ^ 32
   \<and> mp_decode_request demo_env delete_payload = (None, ''DELETE FROM t'', [])
   \<and> isQuery_proxy demo_env delete_payload
   \<and> events (snd (turn_proxy demo_env (server_on ([0, 0, 0, 27] @ delete_payload) 3))) =
       [Alloc 27, LogQuery ''DELETE FROM t'' [], DbQuery ''DELETE FROM t'' []]
   \<and> db (snd (turn_proxy demo_env (server_on ([0, 0, 0, 27] @ delete_payload) 3))) = 0
   \<and> mp_decode_request demo_env [1] = (Some fragment, [], [])
   \<and> \<not> isQuery_proxy demo_env [1]
   \<and> events (snd (turn_proxy demo_env (server_on [0, 0, 0, 1, 1] 3))) =
       [Alloc 1, LogExec [] [], DbExec [] []]"
  using exec_requests_run_as_queries [OF _ _ demo_decode_delete,
      where s = "server_on ([0, 0, 0, 27] @ delete_payload) 3" and rest = "[]"
        and c = "socket []" and q = "''DELETE FROM t''" and a = "[]"]
    exec_requests_run_as_queries [OF _ _ demo_decode_one,
      where s = "server_on [0, 0, 0, 1, 1] 3" and rest = "[]"
        and c = "socket []" and q = "''DELETE FROM t''" and a = "[]"]
  by (auto simp add: demo_decode_delete demo_decode_one demo_encode_delete demo_Query_delete
      server_on_def socket_def length_delete_payload PutUint32_27 PutUint32_1)

subsection \<open>Failures of the engine\<close>

text \<open>
  C2, as the spec states it, fails on the code. With \<^verbatim>\<open>src/unnamed/part_000\<close>, a
  well-framed \<^verbatim>\<open>DROP TABLE t\<close> that the engine rejects, followed by a well-framed
  \<^verbatim>\<open>SELECT 1\<close>: nothing is written, the connection is closed, and the second request
  is left unread.
\<close>

theorem engine_failure_counterexample:
  "handleConnection_svc demo_env
     (server_on ([0, 0, 0, 26] @ drop_payload @ [0, 0, 0, 22] @ select_payload) 3) =
     (HandlerError (SqlError ''syntax error''),
      \<lparr>sock = \<lparr>incoming = [0, 0, 0, 22] @ select_payload, outgoing = [], broken = False,
               closed = True\<rparr>,
       db = 3,
       events = [Alloc 26, LogExec ''DROP TABLE t'' [], DbExec ''DROP TABLE t'' []]\<rparr>)"
  by code_simp

text \<open>
  C2, amended. In \<^verbatim>\<open>src/unnamed/part_000\<close>, when a request was read in full and
  decoded, its query has a first field, and the call of the engine it is routed to
  (\<^verbatim>\<open>db.Query\<close> for \<^verbatim>\<open>SELECT\<close>, \<^verbatim>\<open>db.Exec\<close> otherwise) fails, the loop ends with
  that error: no response is written, the connection is closed, and the bytes after the
  frame stay unread.
\<close>

theorem engine_failure_closes_connection:
  assumes "incoming (sock s) = PutUint32 (of_nat (length d)) @ d @ rest"
      and "length d < 2 ^ 32"
      and "mp_decode_request env d = (None, q, a)"
      and "strings_Fields env (strings_TrimSpace env q) = w # ws"
      and "if strings_ToUpper env w = ''SELECT'' then fst (db_Query env (db s) q a) = Inl e
           else fst (db_Exec env (db s) q a) = Inl e"
  shows "fst (handleConnection_svc env s) = HandlerError e
         \<and> sock (snd (handleConnection_svc env s)) =
             (sock s)\<lparr>incoming := rest, closed := True\<rparr>"
proof -
  let ?s1 = "s\<lparr>sock := (sock s)\<lparr>incoming := rest\<rparr>, events := events s @ [Alloc (length d)]\<rparr>"
  have "\<exists>s2. turn_svc env s = (Some (HandlerError e), s2)
             \<and> sock s2 = (sock s)\<lparr>incoming := rest\<rparr>"
  proof (cases "strings_ToUpper env w = ''SELECT''")
    case True
    with assms(5) have "fst (db_Query env (db ?s1) q a) = Inl e" by simp
    note f = handleQuery_svc_fail [OF assms(3) this]
    from True have "turn_svc env s =
        (case handleQuery_svc env ?s1 d of
           (Some err, s2) \<Rightarrow> (Some (HandlerError err), s2) | (None, s2) \<Rightarrow> (None, s2))"
      by (simp add: turn_svc_frame [OF assms(1,2)] isQuery_svc_word [OF assms(3,4)])
    then show ?thesis
      by (simp add: f)
  next
    case False
    with assms(5) have "fst (db_Exec env (db ?s1) q a) = Inl e" by simp
    note f = handleExec_svc_fail [OF assms(3) this]
    from False have "turn_svc env s =
        (case handleExec_svc env ?s1 d of
           (Some err, s2) \<Rightarrow> (Some (HandlerError err), s2) | (None, s2) \<Rightarrow> (None, s2))"
      by (simp add: turn_svc_frame [OF assms(1,2)] isQuery_svc_word [OF assms(3,4)])
    then show ?thesis
      by (simp add: f)
  qed
  then obtain s2 where t: "turn_svc env s = (Some (HandlerError e), s2)"
    and s2: "sock s2 = (sock s)\<lparr>incoming := rest\<rparr>"
    by blast
  show ?thesis
    by (simp add: handleConnection_svc_stop [OF t] s2 Close_def)
qed

theorem engine_failure_closes_connection_witness:
  "length drop_payload < 2 ^ 32
   \<and> mp_decode_request demo_env drop_payload = (None, ''DROP TABLE t'', [])
   \<and> strings_Fields demo_env (strings_TrimSpace demo_env ''DROP TABLE t'') =
       [''DROP'', ''TABLE'', ''t'']
   \<and> strings_ToUpper demo_env ''DROP'' \<noteq> ''SELECT''
   \<and> fst (db_Exec demo_env 3 ''DROP TABLE t'' []) = Inl (SqlError ''syntax error'')
   \<and> fst (handleConnection_svc demo_env
             (server_on ([0, 0, 0, 26] @ drop_payload @ [0, 0, 0, 22] @ select_payload) 3)) =
       HandlerError (SqlError ''syntax error'')
   \<and> sock (snd (handleConnection_svc demo_env
             (server_on ([0, 0, 0, 26] @ drop_payload @ [0, 0, 0, 22] @ select_payload) 3))) =
       \<lparr>incoming = [0, 0, 0, 22] @ select_payload, outgoing = [], broken = False,
        closed = True\<rparr>"
  using engine_failure_closes_connection [OF _ _ demo_decode_drop demo_Fields_drop,
      where s = "server_on ([0, 0, 0, 26] @ drop_payload @ [0, 0, 0, 22] @ select_payload) 3"
        and rest = "[0, 0, 0, 22] @ select_payload" and e = "SqlError ''syntax error''"]
  by (simp add: demo_decode_drop demo_Fields_drop demo_ToUpper demo_Exec_drop
      server_on_def socket_def length_drop_payload PutUint32_26)

text \<open>
  C10. In \<^verbatim>\<open>src/cmd/proxy/main.go\<close>, \<^verbatim>\<open>handleQuery\<close> after a failed \<^verbatim>\<open>db.Query\<close>
  and \<^verbatim>\<open>handleExec\<close> after a failed \<^verbatim>\<open>db.Exec\<close> go through the nil handle and
  panic, having written nothing; and a frame whose request is routed to the failing call
  makes \<^verbatim>\<open>handleConnection\<close> end in that panic.
\<close>

theorem nil_handle_dereferenced:
  assumes "mp_decode_request env d = (err, q, a)"
  shows "(fst (db_Query env (db s) q a) = Inl e \<longrightarrow>
            handleQuery_proxy env s d =
              (Some NilDereference,
               s\<lparr>db := snd (db_Query env (db s) q a),
                 events := events s @ [LogQuery q a, DbQuery q a]\<rparr>))
         \<and> (fst (db_Exec env (db s) q a) = Inl e \<longrightarrow>
              handleExec_proxy env s d =
                (Some NilDereference,
                 s\<lparr>db := snd (db_Exec env (db s) q a),
                   events := events s @ [LogExec q a, DbExec q a]\<rparr>))
         \<and> (incoming (sock s) = PutUint32 (of_nat (length d)) @ d @ rest \<and> length d < 2 ^ 32
              \<and> (if err = None then isl (fst (db_Query env (db s) q a))
                  else isl (fst (db_Exec env (db s) q a))) \<longrightarrow>
              fst (handleConnection_proxy env s) = Crash NilDereference
              \<and> sock (snd (handleConnection_proxy env s)) =
                  (sock s)\<lparr>incoming := rest, closed := True\<rparr>)"
proof (intro conjI impI)
  assume "fst (db_Query env (db s) q a) = Inl e"
  then show "handleQuery_proxy env s d =
              (Some NilDereference,
               s\<lparr>db := snd (db_Query env (db s) q a),
                 events := events s @ [LogQuery q a, DbQuery q a]\<rparr>)"
    by (rule handleQuery_proxy_fail [OF assms])
next
  assume "fst (db_Exec env (db s) q a) = Inl e"
  then show "handleExec_proxy env s d =
                (Some NilDereference,
                 s\<lparr>db := snd (db_Exec env (db s) q a),
                   events := events s @ [LogExec q a, DbExec q a]\<rparr>)"
    by (rule handleExec_proxy_fail [OF assms])
next
  assume h: "incoming (sock s) = PutUint32 (of_nat (length d)) @ d @ rest \<and> length d < 2 ^ 32
              \<and> (if err = None then isl (fst (db_Query env (db s) q a))
                  else isl (fst (db_Exec env (db s) q a)))"
  let ?s1 = "s\<lparr>sock := (sock s)\<lparr>incoming := rest\<rparr>, events := events s @ [Alloc (length d)]\<rparr>"
  have "\<exists>s2. turn_proxy env s = (Some (Crash NilDereference), s2)
             \<and> sock s2 = (sock s)\<lparr>incoming := rest\<rparr>"
  proof (cases "err = None")
    case True
    with h obtain e' where "fst (db_Query env (db ?s1) q a) = Inl e'"
      by (auto simp add: isl_def)
    note f = handleQuery_proxy_fail [OF assms this]
    from True have i: "isQuery_proxy env d"
      by (simp add: isQuery_proxy_iff [OF assms])
    from h have "turn_proxy env s =
        (case handleQuery_proxy env ?s1 d of
           (Some p, s2) \<Rightarrow> (Some (Crash p), s2) | (None, s2) \<Rightarrow> (None, s2))"
      by (simp add: turn_proxy_frame [of s d rest] i)
    then show ?thesis
      by (simp add: f)
  next
    case False
    with h obtain e' where "fst (db_Exec env (db ?s1) q a) = Inl e'"
      by (auto simp add: isl_def)
    note f = handleExec_proxy_fail [OF assms this]
    from False have i: "\<not> isQuery_proxy env d"
      by (simp add: isQuery_proxy_iff [OF assms])
    from h have "turn_proxy env s =
        (case handleExec_proxy env ?s1 d of
           (Some p, s2) \<Rightarrow> (Some (Crash p), s2) | (None, s2) \<Rightarrow> (None, s2))"
      by (simp add: turn_proxy_frame [of s d rest] i)
    then show ?thesis
      by (simp add: f)
  qed
  then obtain s2 where t: "turn_proxy env s = (Some (Crash NilDereference), s2)"
    and s2: "sock s2 = (sock s)\<lparr>incoming := rest\<rparr>"
    by blast
  show "fst (handleConnection_proxy env s) = Crash NilDereference"
    by (simp add: handleConnection_proxy_stop [OF t])
  show "sock (snd (handleConnection_proxy env s)) = (sock s)\<lparr>incoming := rest, closed := True\<rparr>"
    by (simp add: handleConnection_proxy_stop [OF t] s2 Close_def)
qed

theorem nil_handle_dereferenced_witness:
  "mp_decode_request demo_env drop_payload = (None, ''DROP TABLE t'', [])
   \<and> fst (db_Query demo_env 3 ''DROP TABLE t'' []) = Inl (SqlError ''syntax error'')
   \<and> fst (db_Exec demo_env 3 ''DROP TABLE t'' []) = Inl (SqlError ''syntax error'')
   \<and> handleQuery_proxy demo_env (server_on [] 3) drop_payload =
       (Some NilDereference,
        \<lparr>sock = socket [], db = 3,
         events = [LogQuery ''DROP TABLE t'' [], DbQuery ''DROP TABLE t'' []]\<rparr>)
   \<and> handleExec_proxy demo_env (server_on [] 3) drop_payload =
       (Some NilDereference,
        \<lparr>sock = socket [], db = 3,
         events = [LogExec ''DROP TABLE t'' [], DbExec ''DROP TABLE t'' []]\<rparr>)
   \<and> fst (handleConnection_proxy demo_env
             (server_on ([0, 0, 0, 26] @ drop_payload @ [0, 0, 0, 22] @ select_payload) 3)) =
       Crash NilDereference
   \<and> sock (snd (handleConnection_proxy demo_env
             (server_on ([0, 0, 0, 26] @ drop_payload @ [0, 0, 0, 22] @ select_payload) 3))) =
       \<lparr>incoming = [0, 0, 0, 22] @ select_payload, outgoing = [], broken = False,
        closed = True\<rparr>
   \<and> mp_decode_request demo_env [1] = (Some fragment, [], [])
   \<and> fst (db_Exec demo_env 3 [] []) = Inl (SqlError ''syntax error'')
   \<and> fst (handleConnection_proxy demo_env (server_on [0, 0, 0, 1, 1] 3)) =
       Crash NilDereference"
  using nil_handle_dereferenced [OF demo_decode_drop,
      where s = "server_on [] 3" and e = "SqlError ''syntax error''"
        and rest = "[]"]
    nil_handle_dereferenced [OF demo_decode_drop,
      where s = "server_on ([0, 0, 0, 26] @ drop_payload @ [0, 0, 0, 22] @ select_payload) 3"
        and e = "SqlError ''syntax error''" and rest = "[0, 0, 0, 22] @ select_payload"]
    nil_handle_dereferenced [OF demo_decode_one,
      where s = "server_on [0, 0, 0, 1, 1] 3"
        and e = "SqlError ''syntax error''" and rest = "[]"]
  by (simp add: demo_decode_drop demo_decode_one demo_Query_drop demo_Exec_drop demo_Exec_empty
      server_on_def socket_def length_drop_payload PutUint32_26 PutUint32_1)

subsection \<open>The size of a frame\<close>

text \<open>
  C3, as the spec states it, fails on the code. A header that declares \<open>2 ^ 32 - 1\<close>
  bytes, more than 64 MiB, followed by three bytes: both entry points allocate a buffer of
  the declared size, read the three bytes, and end with \<^verbatim>\<open>io.ErrUnexpectedEOF\<close>.
\<close>

theorem frame_too_large_counterexample:
  "(64 * 1024 * 1024 :: nat) < unat (Uint32 [0xff, 0xff, 0xff, 0xff])
   \<and> handleConnection_proxy demo_env (server_on [0xff, 0xff, 0xff, 0xff, 1, 2, 3] 0) =
       (ReadError ErrUnexpectedEOF,
        \<lparr>sock = \<lparr>incoming = [], outgoing = [], broken = False, closed = True\<rparr>,
         db = 0, events = [Alloc 4294967295]\<rparr>)
   \<and> handleConnection_svc demo_env (server_on [0xff, 0xff, 0xff, 0xff, 1, 2, 3] 0) =
       (ReadError ErrUnexpectedEOF,
        \<lparr>sock = \<lparr>incoming = [], outgoing = [], broken = False, closed = True\<rparr>,
         db = 0, events = [Alloc 4294967295]\<rparr>)"
proof -
  have i: "incoming (sock (server_on [0xff, 0xff, 0xff, 0xff, 1, 2, 3] 0)) =
             [0xff, 0xff, 0xff, 0xff] @ [1, 2, 3]"
    by (simp add: server_on_def socket_def)
  have l: "length [0xff, 0xff, 0xff, 0xff :: byte] = 4"
    by simp
  have b: "length [1, 2, 3 :: byte] < unat (Uint32 [0xff, 0xff, 0xff, 0xff])"
    by simp
  show ?thesis
    using handleConnection_proxy_stop [OF turn_short(1) [OF i l b], of demo_env]
      handleConnection_svc_stop [OF turn_short(2) [OF i l b], of demo_env]
    by (simp add: server_on_def socket_def Close_def)
qed

text \<open>
  C3, amended. The server has no maximum frame size. Whatever length the four header bytes
  declare, a buffer of that length is allocated and that many bytes are read. When the
  stream ends before them, the loop of both entry points ends with the error of the read
  (\<^verbatim>\<open>io.EOF\<close> when no payload byte arrived, \<^verbatim>\<open>io.ErrUnexpectedEOF\<close> otherwise),
  nothing is written and the connection is closed; when they arrive, they are the payload.
\<close>

theorem no_frame_limit:
  assumes "incoming (sock s) = h @ body" and "length h = 4"
  shows "(length body < unat (Uint32 h) \<longrightarrow>
            handleConnection_proxy env s =
              (ReadError (if body = [] then EOF else ErrUnexpectedEOF),
               s\<lparr>sock := (sock s)\<lparr>incoming := [], closed := True\<rparr>,
                 events := events s @ [Alloc (unat (Uint32 h))]\<rparr>)
            \<and> handleConnection_svc env s =
              (ReadError (if body = [] then EOF else ErrUnexpectedEOF),
               s\<lparr>sock := (sock s)\<lparr>incoming := [], closed := True\<rparr>,
                 events := events s @ [Alloc (unat (Uint32 h))]\<rparr>))
         \<and> (unat (Uint32 h) \<le> length body \<longrightarrow>
              readFrame (sock s) =
                (Inr (take (unat (Uint32 h)) body), [unat (Uint32 h)],
                 (sock s)\<lparr>incoming := drop (unat (Uint32 h)) body\<rparr>))"
proof (intro conjI impI)
  assume short: "length body < unat (Uint32 h)"
  show "handleConnection_proxy env s =
              (ReadError (if body = [] then EOF else ErrUnexpectedEOF),
               s\<lparr>sock := (sock s)\<lparr>incoming := [], closed := True\<rparr>,
                 events := events s @ [Alloc (unat (Uint32 h))]\<rparr>)"
    by (simp add: handleConnection_proxy_stop [OF turn_short(1) [OF assms short]] Close_def)
  show "handleConnection_svc env s =
              (ReadError (if body = [] then EOF else ErrUnexpectedEOF),
               s\<lparr>sock := (sock s)\<lparr>incoming := [], closed := True\<rparr>,
                 events := events s @ [Alloc (unat (Uint32 h))]\<rparr>)"
    by (simp add: handleConnection_svc_stop [OF turn_short(2) [OF assms short]] Close_def)
next
  assume "unat (Uint32 h) \<le> length body"
  then show "readFrame (sock s) =
                (Inr (take (unat (Uint32 h)) body), [unat (Uint32 h)],
                 (sock s)\<lparr>incoming := drop (unat (Uint32 h)) body\<rparr>)"
    by (rule readFrame_long [OF assms])
qed

theorem no_frame_limit_witness:
  "length [0x04, 0x00, 0x00, 0x01 :: byte] = 4
   \<and> length ([] :: byte list) < unat (Uint32 [0x04, 0x00, 0x00, 0x01])
   \<and> handleConnection_proxy demo_env (server_on [0x04, 0x00, 0x00, 0x01] 0) =
       (ReadError EOF,
        \<lparr>sock = \<lparr>incoming = [], outgoing = [], broken = False, closed = True\<rparr>,
         db = 0, events = [Alloc 67108865]\<rparr>)
   \<and> handleConnection_svc demo_env (server_on [0x04, 0x00, 0x00, 0x01] 0) =
       (ReadError EOF,
        \<lparr>sock = \<lparr>incoming = [], outgoing = [], broken = False, closed = True\<rparr>,
         db = 0, events = [Alloc 67108865]\<rparr>)
   \<and> unat (Uint32 [0, 0, 0, 2]) \<le> length [7, 8, 9 :: byte]
   \<and> readFrame (socket [0, 0, 0, 2, 7, 8, 9]) = (Inr [7, 8], [2], socket [9])"
  using no_frame_limit [where s = "server_on [0x04, 0x00, 0x00, 0x01] 0"
      and h = "[0x04, 0x00, 0x00, 0x01]" and body = "[]" and env = demo_env]
    no_frame_limit [where s = "server_on [0, 0, 0, 2, 7, 8, 9] 0"
      and h = "[0, 0, 0, 2]" and body = "[7, 8, 9]" and env = demo_env]
  by (simp add: server_on_def socket_def)

end
